theory Spec2Isabelle
  imports Complex_Main "HOL-Library.Char_ord" "HOL-Library.List_Lexorder"
begin

section \<open>Data model of the time intelligence engine\<close>

text \<open>
  The engine (\<^verbatim>\<open>src/core/time_intelligence.py\<close>) keeps one JSON document with a list of
  entries. Timestamps are \<^verbatim>\<open>datetime\<close> values written as ISO strings and parsed back; they
  are modelled as an integer count of microseconds, the resolution of \<^verbatim>\<open>datetime\<close>.
  Python floats are modelled as reals, Python integers as \<open>int\<close>, strings as ASCII
  character lists. The clock reading and the generated identifiers are arguments of the
  operations that ask the environment for them.
\<close>

datatype py_error = TypeError | ZeroDivisionError

record distraction =
  d_type :: string
  d_duration_minutes :: int
  d_description :: string
  d_timestamp :: int

record time_entry =
  entry_id :: string
  start_time :: "int option"
  end_time :: "int option"
  duration_minutes :: "int option"
  work_description :: string
  work_type :: string
  knowledge_refs :: "string list"
  people_refs :: "string list"
  distractions :: "distraction list"
  completion_percentage :: "int option"
  entry_notes :: string

text \<open>
  The keys \<^verbatim>\<open>breakdown_id\<close>, \<^verbatim>\<open>chunk_id\<close> and \<^verbatim>\<open>estimated_minutes\<close> that
  \<^verbatim>\<open>accept_breakdown\<close> adds to an entry's dictionary.
\<close>

record breakdown_meta =
  m_breakdown_id :: string
  m_chunk_id :: string
  m_estimated_minutes :: real

text \<open>
  A stored entry is the dictionary in \<^verbatim>\<open>data["entries"]\<close>: the eleven keys of
  \<^verbatim>\<open>TimeEntry\<close>, and the three extra keys when the entry came from a breakdown.
\<close>

record entry_dict =
  core :: time_entry
  meta :: "breakdown_meta option"

record work_chunk =
  chunk_id :: string
  chunk_description :: string
  estimated_minutes :: real
  chunk_work_type :: string
  chunk_knowledge_refs :: "string list"
  dependencies :: "string list"

record work_breakdown =
  original_work :: string
  estimated_total :: real
  chunks :: "work_chunk list"
  breakdown_id :: string
  created_at :: int
  completed_chunks :: "string list"

text \<open>
  The JSON document. The key \<^verbatim>\<open>breakdowns\<close> is absent until the first breakdown is
  accepted.
\<close>

record time_data =
  entries :: "entry_dict list"
  breakdowns :: "work_breakdown list option"

definition empty_data :: time_data where
  "empty_data = \<lparr>entries = [], breakdowns = None\<rparr>"

subsection \<open>Python arithmetic\<close>

text \<open>\<^verbatim>\<open>timedelta.total_seconds()\<close> of a difference of microsecond counts.\<close>

definition total_seconds :: "int \<Rightarrow> real" where
  "total_seconds td = real_of_int td / 1000000"

text \<open>\<^verbatim>\<open>int(x)\<close> on a float truncates toward zero.\<close>

definition py_int :: "real \<Rightarrow> int" where
  "py_int x = (if 0 \<le> x then \<lfloor>x\<rfloor> else \<lceil>x\<rceil>)"

text \<open>
  \<^verbatim>\<open>round(x)\<close> as the specification's sentence on durations uses it: Python rounds to
  the nearest integer, a tie to the even neighbour.
\<close>

definition py_round :: "real \<Rightarrow> int" where
  "py_round x =
     (let f = \<lfloor>x\<rfloor>; d = x - real_of_int f
      in if d < 1 / 2 then f
         else if 1 / 2 < d then f + 1
         else if even f then f else f + 1)"

section \<open>Time entry store\<close>

text \<open>
  The loop \<^verbatim>\<open>for entry in data["entries"]: if entry["id"] == work_id: ... break\<close>:
  the position of the first entry with that id.
\<close>

fun find_entry :: "string \<Rightarrow> entry_dict list \<Rightarrow> nat option" where
  "find_entry work_id [] = None"
| "find_entry work_id (entry # rest) =
     (if entry_id (core entry) = work_id then Some 0
      else map_option Suc (find_entry work_id rest))"

definition start_work ::
  "int \<Rightarrow> string \<Rightarrow> string \<Rightarrow> string \<Rightarrow> string list \<Rightarrow> string list \<Rightarrow> time_data
     \<Rightarrow> string \<times> time_data" where
  "start_work now work_id description wtype krefs prefs data =
     (let entry = \<lparr>entry_id = work_id, start_time = Some now, end_time = None,
                    duration_minutes = None, work_description = description,
                    work_type = wtype, knowledge_refs = krefs, people_refs = prefs,
                    distractions = [], completion_percentage = None, entry_notes = []\<rparr>
      in (work_id,
          data\<lparr>entries := entries data @ [\<lparr>core = entry, meta = None\<rparr>]\<rparr>))"

text \<open>
  \<^verbatim>\<open>end_work\<close>. \<^verbatim>\<open>datetime.fromisoformat(None)\<close> raises before anything is written;
  \<^verbatim>\<open>TimeEntry(**entry_dict)\<close> raises on the extra keys after the document was saved.
  The result pairs what the call returns or raises with the document it leaves.
\<close>

definition end_work ::
  "int \<Rightarrow> string \<Rightarrow> string \<Rightarrow> int option \<Rightarrow> time_data
     \<Rightarrow> (py_error + time_entry option) \<times> time_data" where
  "end_work now work_id completion_notes completion_pct data =
     (case find_entry work_id (entries data) of
        None \<Rightarrow> (Inr None, data)
      | Some i \<Rightarrow>
          (let entry = entries data ! i in
           case start_time (core entry) of
             None \<Rightarrow> (Inl TypeError, data)
           | Some start \<Rightarrow>
               (let duration = py_int (total_seconds (now - start) / 60);
                    f1 = (core entry)\<lparr>end_time := Some now,
                                          duration_minutes := Some duration,
                                          entry_notes := completion_notes\<rparr>;
                    f2 = (case completion_pct of
                            None \<Rightarrow> f1
                          | Some p \<Rightarrow> f1\<lparr>completion_percentage := Some p\<rparr>);
                    data' = data\<lparr>entries := (entries data)[i := entry\<lparr>core := f2\<rparr>]\<rparr>
                in case meta entry of
                     Some m \<Rightarrow> (Inl TypeError, data')
                   | None \<Rightarrow> (Inr (Some f2), data'))))"

definition get_time_entry :: "string \<Rightarrow> time_data \<Rightarrow> time_entry option" where
  "get_time_entry work_id data =
     map_option (\<lambda>i. core (entries data ! i)) (find_entry work_id (entries data))"

definition get_all_entries :: "time_data \<Rightarrow> time_entry list" where
  "get_all_entries data = map core (entries data)"

definition record_distraction ::
  "int \<Rightarrow> string \<Rightarrow> string \<Rightarrow> int \<Rightarrow> string \<Rightarrow> time_data \<Rightarrow> bool \<times> time_data" where
  "record_distraction now work_id dtype minutes description data =
     (case find_entry work_id (entries data) of
        None \<Rightarrow> (False, data)
      | Some i \<Rightarrow>
          (let entry = entries data ! i;
               d = \<lparr>d_type = dtype, d_duration_minutes = minutes,
                    d_description = description, d_timestamp = now\<rparr>;
               f = (core entry)\<lparr>distractions := distractions (core entry) @ [d]\<rparr>
           in (True, data\<lparr>entries := (entries data)[i := entry\<lparr>core := f\<rparr>]\<rparr>)))"

text \<open>
  \<^verbatim>\<open>link_time_to_knowledge\<close> stores \<^verbatim>\<open>list(existing_refs.union(new_refs))\<close>. Python leaves
  the order of a set's elements open; the model lists each element once, in one fixed
  order, and the properties proved of it speak of the set of elements only.
\<close>

definition link_time_to_knowledge :: "string \<Rightarrow> string list \<Rightarrow> time_data \<Rightarrow> bool \<times> time_data" where
  "link_time_to_knowledge work_id krefs data =
     (case find_entry work_id (entries data) of
        None \<Rightarrow> (False, data)
      | Some i \<Rightarrow>
          (let entry = entries data ! i;
               f = (core entry)\<lparr>knowledge_refs := remdups (knowledge_refs (core entry) @ krefs)\<rparr>
           in (True, data\<lparr>entries := (entries data)[i := entry\<lparr>core := f\<rparr>]\<rparr>)))"

section \<open>Strings\<close>

text \<open>\<^verbatim>\<open>str.lower()\<close> on ASCII text.\<close>

definition lower_char :: "char \<Rightarrow> char" where
  "lower_char c =
     (if CHR ''A'' \<le> c \<and> c \<le> CHR ''Z'' then char_of (of_char c + (32 :: nat)) else c)"

definition lower :: "string \<Rightarrow> string" where
  "lower s = map lower_char s"

fun starts_with :: "string \<Rightarrow> string \<Rightarrow> bool" where
  "starts_with s [] = True"
| "starts_with [] (p # ps) = False"
| "starts_with (c # cs) (p # ps) = (c = p \<and> starts_with cs ps)"

text \<open>\<^verbatim>\<open>sub in s\<close> for strings: \<open>contains s sub\<close>.\<close>

fun contains :: "string \<Rightarrow> string \<Rightarrow> bool" where
  "contains [] sub = (sub = [])"
| "contains (c # cs) sub = (starts_with (c # cs) sub \<or> contains cs sub)"

text \<open>\<^verbatim>\<open>str(n)\<close> of a natural number, as the f-strings print it.\<close>

definition digit_char :: "nat \<Rightarrow> char" where
  "digit_char d = char_of (48 + d)"

fun str_nat :: "nat \<Rightarrow> string" where
  "str_nat n = (if n < 10 then [digit_char n] else str_nat (n div 10) @ [digit_char (n mod 10)])"

declare str_nat.simps [simp del]

section \<open>Complexity and breakdown engine\<close>

record complexity =
  complexity_score :: nat
  complexity_level :: string
  indicators :: "string list"
  recommendation :: string

definition action_verbs :: "string list" where
  "action_verbs =
     [''implement'', ''create'', ''build'', ''design'', ''develop'', ''write'',
      ''test'', ''deploy'', ''configure'', ''setup'', ''integrate'', ''refactor'',
      ''update'', ''modify'', ''add'', ''remove'', ''fix'', ''debug'']"

definition conjunctions :: "string list" where
  "conjunctions = [''and'', ''then'', ''also'', ''plus'', ''along with'', ''as well as'']"

definition scope_words :: "string list" where
  "scope_words = [''complete'', ''full'', ''entire'', ''comprehensive'', ''end-to-end'', ''all'']"

text \<open>\<^verbatim>\<open>sum(1 for w in words if w in description_lower)\<close>.\<close>

definition count_hits :: "string list \<Rightarrow> string \<Rightarrow> nat" where
  "count_hits ws description_lower = length (filter (contains description_lower) ws)"

definition analyze_complexity :: "string \<Rightarrow> complexity" where
  "analyze_complexity description =
     (let description_lower = lower description;
          (s1, i1) =
            (if 100 < length description
               then (2, [''Long description suggests multiple components''])
             else if 50 < length description
               then (1, [''Moderate description length''])
             else (0, []));
          verb_count = count_hits action_verbs description_lower;
          (s2, i2) =
            (if 3 \<le> verb_count
               then (s1 + 2, i1 @ [''Multiple action verbs ('' @ str_nat verb_count
                                     @ '') suggest multiple tasks''])
             else if 2 \<le> verb_count
               then (s1 + 1, i1 @ [''Multiple actions ('' @ str_nat verb_count
                                     @ '') detected''])
             else (s1, i1));
          conjunction_count = count_hits conjunctions description_lower;
          (s3, i3) =
            (if 2 \<le> conjunction_count
               then (s2 + 2, i2 @ [''Multiple conjunctions ('' @ str_nat conjunction_count
                                     @ '') suggest compound work''])
             else if 1 \<le> conjunction_count
               then (s2 + 1, i2 @ [''Conjunctions suggest multiple components''])
             else (s2, i2));
          scope_count = count_hits scope_words description_lower;
          (s4, i4) =
            (if 2 \<le> scope_count
               then (s3 + 2, i3 @ [''Broad scope indicators detected''])
             else if 1 \<le> scope_count
               then (s3 + 1, i3 @ [''Scope indicator suggests larger work item''])
             else (s3, i3));
          (level, rec) =
            (if 5 \<le> s4
               then (''high'', ''Strong candidate for breakdown into smaller chunks'')
             else if 3 \<le> s4
               then (''medium'', ''Consider breaking down into 2-3 chunks'')
             else (''low'', ''Appears to be a single, focused work item''))
      in \<lparr>complexity_score = s4, complexity_level = level, indicators = i4,
          recommendation = rec\<rparr>)"

section \<open>Statistics engine\<close>

text \<open>
  \<^verbatim>\<open>find_similar_work\<close>: the loop over the stored entries, each \<^verbatim>\<open>continue\<close> a branch that
  skips the entry. \<^verbatim>\<open>knowledge_refs or []\<close> makes an absent list the empty list, so the
  argument is a list. The result keeps the \<^verbatim>\<open>TimeEntry\<close> keys of each selected dictionary.
  The description is an argument the body never reads.
\<close>

fun similar_entries :: "string \<Rightarrow> string list \<Rightarrow> entry_dict list \<Rightarrow> time_entry list" where
  "similar_entries wtype krefs [] = []"
| "similar_entries wtype krefs (entry # rest) =
     (if duration_minutes (core entry) = None then similar_entries wtype krefs rest
      else if work_type (core entry) \<noteq> wtype then similar_entries wtype krefs rest
      else if krefs \<noteq> [] \<and> set (knowledge_refs (core entry)) \<inter> set krefs = {}
        then similar_entries wtype krefs rest
      else core entry # similar_entries wtype krefs rest)"

definition find_similar_work ::
  "string \<Rightarrow> string \<Rightarrow> string list \<Rightarrow> time_data \<Rightarrow> time_entry list" where
  "find_similar_work description wtype krefs data = similar_entries wtype krefs (entries data)"

definition calculate_statistics :: "time_entry list \<Rightarrow> real \<times> real" where
  "calculate_statistics es =
     (if es = [] then (0, 0)
      else
        (let durations = List.map_filter duration_minutes es
         in if durations = [] then (0, 0)
            else
              (let mean = real_of_int (sum_list durations) / real (length durations);
                   var = (if length durations = 1 then 0
                          else sum_list (map (\<lambda>d. (real_of_int d - mean)\<^sup>2) durations)
                                 / real (length durations))
               in (mean, var))))"

section \<open>Estimation engine\<close>

text \<open>
  \<^verbatim>\<open>EstimateResult\<close> without its \<^verbatim>\<open>explanation\<close>, a sentence for the reader built with
  float formatting; where building it can raise, the operation's model raises.
\<close>

record estimate_result =
  mean_minutes :: real
  variance :: real
  std_dev :: real
  min_estimate :: real
  max_estimate :: real
  confidence_range :: "real \<times> real"
  similar_work_count :: nat
  similar_work_ids :: "string list"

definition generate_estimate ::
  "string \<Rightarrow> string \<Rightarrow> string list \<Rightarrow> time_data \<Rightarrow> estimate_result option" where
  "generate_estimate description wtype krefs data =
     (let similar_work = find_similar_work description wtype krefs data
      in if similar_work = [] then None
         else
           (let (mean, var) = calculate_statistics similar_work;
                sd = sqrt var;
                min_e = max 0 (mean - sd);
                max_e = mean + sd
            in Some \<lparr>mean_minutes = mean, variance = var, std_dev = sd,
                      min_estimate = min_e, max_estimate = max_e,
                      confidence_range = (min_e, max_e),
                      similar_work_count = length similar_work,
                      similar_work_ids = map entry_id similar_work\<rparr>))"

record distraction_impact =
  average_duration_with_distractions :: real
  average_duration_without_distractions :: real
  average_distraction_overhead_minutes :: real
  average_distraction_overhead_percentage :: real
  total_distraction_time :: int
  entries_with_distractions :: nat
  entries_without_distractions :: nat

definition calculate_distraction_impact :: "string option \<Rightarrow> time_data \<Rightarrow> distraction_impact" where
  "calculate_distraction_impact wtype data =
     (let completed = filter (\<lambda>e. duration_minutes (core e) \<noteq> None) (entries data);
          es = (case wtype of
                  None \<Rightarrow> completed
                | Some wt \<Rightarrow> filter (\<lambda>e. work_type (core e) = wt) completed);
          with_distractions = filter (\<lambda>e. distractions (core e) \<noteq> []) es;
          without_distractions = filter (\<lambda>e. distractions (core e) = []) es;
          total = sum_list (map (\<lambda>e. sum_list (map d_duration_minutes (distractions (core e))))
                              with_distractions);
          avg_with =
            (if with_distractions \<noteq> []
             then real_of_int (sum_list (List.map_filter (\<lambda>e. duration_minutes (core e))
                                           with_distractions))
                    / real (length with_distractions)
             else 0);
          avg_without =
            (if without_distractions \<noteq> []
             then real_of_int (sum_list (List.map_filter (\<lambda>e. duration_minutes (core e))
                                           without_distractions))
                    / real (length without_distractions)
             else 0);
          overhead_minutes = avg_with - avg_without;
          overhead_percentage =
            (if 0 < avg_without then overhead_minutes / avg_without * 100 else 0)
      in \<lparr>average_duration_with_distractions = avg_with,
          average_duration_without_distractions = avg_without,
          average_distraction_overhead_minutes = overhead_minutes,
          average_distraction_overhead_percentage = overhead_percentage,
          total_distraction_time = total,
          entries_with_distractions = length with_distractions,
          entries_without_distractions = length without_distractions\<rparr>)"

definition generate_estimate_with_distraction_overhead ::
  "string \<Rightarrow> string \<Rightarrow> string list \<Rightarrow> time_data \<Rightarrow> estimate_result option" where
  "generate_estimate_with_distraction_overhead description wtype krefs data =
     (case generate_estimate description wtype krefs data of
        None \<Rightarrow> None
      | Some base_estimate \<Rightarrow>
          (let impact = calculate_distraction_impact (Some wtype) data
           in if 0 < entries_with_distractions impact
              then
                (let pct = average_distraction_overhead_percentage impact;
                     adjusted_mean = mean_minutes base_estimate * (1 + pct / 100);
                     adjusted_min = min_estimate base_estimate * (1 + pct / 100);
                     adjusted_max = max_estimate base_estimate * (1 + pct / 100)
                 in Some \<lparr>mean_minutes = adjusted_mean,
                           variance = variance base_estimate,
                           std_dev = std_dev base_estimate,
                           min_estimate = adjusted_min, max_estimate = adjusted_max,
                           confidence_range = (adjusted_min, adjusted_max),
                           similar_work_count = similar_work_count base_estimate,
                           similar_work_ids = similar_work_ids base_estimate\<rparr>)
              else Some base_estimate))"

subsection \<open>Experience\<close>

definition get_entries_by_knowledge :: "string \<Rightarrow> time_data \<Rightarrow> time_entry list" where
  "get_entries_by_knowledge kref data =
     map core (filter (\<lambda>e. kref \<in> set (knowledge_refs (core e))) (entries data))"

record knowledge_investment =
  ki_knowledge_ref :: string
  ki_total_minutes :: int
  ki_work_item_count :: nat
  ki_average_duration :: real
  ki_work_items :: "(string \<times> string \<times> int option \<times> string \<times> int option) list"

definition get_knowledge_time_investment :: "string \<Rightarrow> time_data \<Rightarrow> knowledge_investment" where
  "get_knowledge_time_investment kref data =
     (let completed = filter (\<lambda>e. duration_minutes e \<noteq> None)
                        (get_entries_by_knowledge kref data)
      in if completed = []
         then \<lparr>ki_knowledge_ref = kref, ki_total_minutes = 0, ki_work_item_count = 0,
               ki_average_duration = 0, ki_work_items = []\<rparr>
         else
           (let total = sum_list (List.map_filter duration_minutes completed)
            in \<lparr>ki_knowledge_ref = kref, ki_total_minutes = total,
                ki_work_item_count = length completed,
                ki_average_duration = real_of_int total / real (length completed),
                ki_work_items =
                  map (\<lambda>e. (entry_id e, work_description e, duration_minutes e,
                             work_type e, start_time e)) completed\<rparr>))"

text \<open>
  The tier chain of \<^verbatim>\<open>generate_experience_adjusted_estimate\<close>: the experience level and
  the adjustment factor for a total of minutes.
\<close>

definition experience_adjustment :: "int \<Rightarrow> string \<times> real" where
  "experience_adjustment total_experience_minutes =
     (if total_experience_minutes < 120 then (''novice'', 12 / 10)
      else if total_experience_minutes < 480 then (''intermediate'', 1)
      else if total_experience_minutes < 1200 then (''experienced'', 85 / 100)
      else (''expert'', 7 / 10))"

definition total_experience :: "string list \<Rightarrow> time_data \<Rightarrow> int" where
  "total_experience krefs data =
     sum_list (map (\<lambda>k. ki_total_minutes (get_knowledge_time_investment k data)) krefs)"

definition generate_experience_adjusted_estimate ::
  "string \<Rightarrow> string \<Rightarrow> string list \<Rightarrow> time_data \<Rightarrow> estimate_result option" where
  "generate_experience_adjusted_estimate description wtype krefs data =
     (case generate_estimate description wtype krefs data of
        None \<Rightarrow> None
      | Some base_estimate \<Rightarrow>
          if krefs = [] then Some base_estimate
          else
            (let total_experience_minutes = total_experience krefs data;
                 (experience_level, adjustment_factor) =
                    experience_adjustment total_experience_minutes;
                 adjusted_mean = mean_minutes base_estimate * adjustment_factor;
                 adjusted_min = min_estimate base_estimate * adjustment_factor;
                 adjusted_max = max_estimate base_estimate * adjustment_factor
             in Some \<lparr>mean_minutes = adjusted_mean,
                       variance = variance base_estimate,
                       std_dev = std_dev base_estimate,
                       min_estimate = adjusted_min, max_estimate = adjusted_max,
                       confidence_range = (adjusted_min, adjusted_max),
                       similar_work_count = similar_work_count base_estimate,
                       similar_work_ids = similar_work_ids base_estimate\<rparr>))"

subsection \<open>Collaboration\<close>

text \<open>
  The explanation of a collaborative estimate divides by the base estimate's mean, which
  raises \<^verbatim>\<open>ZeroDivisionError\<close> when that mean is zero.
\<close>

definition generate_collaboration_adjusted_estimate ::
  "string \<Rightarrow> string \<Rightarrow> string list \<Rightarrow> string list \<Rightarrow> time_data
     \<Rightarrow> py_error + estimate_result option" where
  "generate_collaboration_adjusted_estimate description wtype prefs krefs data =
     (case generate_estimate description wtype krefs data of
        None \<Rightarrow> Inr None
      | Some base_estimate \<Rightarrow>
          if prefs = [] then Inr (Some base_estimate)
          else
            (let similar_collaborative_work =
                   map core
                     (filter (\<lambda>e. duration_minutes (core e) \<noteq> None
                                  \<and> work_type (core e) = wtype
                                  \<and> set (people_refs (core e)) \<inter> set prefs \<noteq> {})
                        (entries data))
             in if similar_collaborative_work \<noteq> []
                then
                  (let (collab_mean, collab_variance) =
                         calculate_statistics similar_collaborative_work
                   in if 0 < collab_mean
                      then
                        (let collab_std_dev = sqrt collab_variance;
                             adjusted_min = max 0 (collab_mean - collab_std_dev);
                             adjusted_max = collab_mean + collab_std_dev
                         in if mean_minutes base_estimate = 0 then Inl ZeroDivisionError
                            else Inr (Some
                              \<lparr>mean_minutes = collab_mean,
                               variance = collab_variance,
                               std_dev = collab_std_dev,
                               min_estimate = adjusted_min, max_estimate = adjusted_max,
                               confidence_range = (adjusted_min, adjusted_max),
                               similar_work_count = length similar_collaborative_work,
                               similar_work_ids =
                                 map entry_id similar_collaborative_work\<rparr>))
                      else Inr (Some base_estimate))
                else Inr (Some base_estimate)))"

section \<open>Work breakdown\<close>

definition heuristics :: "(string \<times> real) list" where
  "heuristics =
     [(''design'', 60), (''implement'', 120), (''test'', 60), (''document'', 30),
      (''research'', 45), (''draft'', 90), (''edit'', 30), (''prepare'', 20),
      (''attend'', 60), (''followup'', 30), (''generic'', 60)]"

definition estimate_chunk :: "string \<Rightarrow> string \<Rightarrow> string list \<Rightarrow> time_data \<Rightarrow> real" where
  "estimate_chunk chunk_type wtype krefs data =
     (let similar_work = find_similar_work chunk_type wtype krefs data;
          mean = fst (calculate_statistics similar_work)
      in if similar_work \<noteq> [] \<and> 0 < mean then mean
         else (case map_of heuristics chunk_type of Some m \<Rightarrow> m | None \<Rightarrow> 60))"

text \<open>\<^verbatim>\<open>any(word in description_lower for word in words)\<close>.\<close>

definition any_word :: "string list \<Rightarrow> string \<Rightarrow> bool" where
  "any_word ws description_lower = list_ex (contains description_lower) ws"

text \<open>\<^verbatim>\<open>[chunks[-1].id] if chunks else []\<close>.\<close>

definition previous_chunk :: "work_chunk list \<Rightarrow> string list" where
  "previous_chunk cs = (if cs \<noteq> [] then [chunk_id (last cs)] else [])"

definition technical_chunks ::
  "string \<Rightarrow> string \<Rightarrow> string list \<Rightarrow> complexity \<Rightarrow> time_data \<Rightarrow> work_chunk list" where
  "technical_chunks description wtype krefs cx data =
     (let description_lower = lower description;
          c0 = [];
          c1 = (if any_word [''design'', ''architecture'', ''plan'', ''spec''] description_lower
                then c0 @ [\<lparr>chunk_id = ''chunk_1'',
                             chunk_description = ''Design and plan: '' @ description,
                             estimated_minutes = estimate_chunk ''design'' wtype krefs data,
                             chunk_work_type = wtype, chunk_knowledge_refs = krefs,
                             dependencies = []\<rparr>]
                else c0);
          c2 = (if any_word [''implement'', ''build'', ''create'', ''develop'', ''code'']
                     description_lower
                then c1 @ [\<lparr>chunk_id = ''chunk_'' @ str_nat (length c1 + 1),
                             chunk_description =
                               ''Implement core functionality: '' @ description,
                             estimated_minutes = estimate_chunk ''implement'' wtype krefs data,
                             chunk_work_type = wtype, chunk_knowledge_refs = krefs,
                             dependencies = previous_chunk c1\<rparr>]
                else c1);
          c3 = (if any_word [''test'', ''verify'', ''validate''] description_lower
                     \<or> complexity_level cx = ''high''
                then c2 @ [\<lparr>chunk_id = ''chunk_'' @ str_nat (length c2 + 1),
                             chunk_description = ''Test and validate: '' @ description,
                             estimated_minutes = estimate_chunk ''test'' wtype krefs data,
                             chunk_work_type = wtype, chunk_knowledge_refs = krefs,
                             dependencies = previous_chunk c2\<rparr>]
                else c2);
          c4 = (if any_word [''document'', ''doc'', ''write''] description_lower
                     \<or> complexity_level cx = ''high''
                then c3 @ [\<lparr>chunk_id = ''chunk_'' @ str_nat (length c3 + 1),
                             chunk_description = ''Document: '' @ description,
                             estimated_minutes = estimate_chunk ''document'' wtype krefs data,
                             chunk_work_type = ''writing'', chunk_knowledge_refs = krefs,
                             dependencies = previous_chunk c3\<rparr>]
                else c3)
      in c4)"

definition writing_chunks ::
  "string \<Rightarrow> string \<Rightarrow> string list \<Rightarrow> time_data \<Rightarrow> work_chunk list" where
  "writing_chunks description wtype krefs data =
     [\<lparr>chunk_id = ''chunk_1'',
       chunk_description = ''Research and outline: '' @ description,
       estimated_minutes = estimate_chunk ''research'' wtype krefs data,
       chunk_work_type = wtype, chunk_knowledge_refs = krefs, dependencies = []\<rparr>,
      \<lparr>chunk_id = ''chunk_2'',
       chunk_description = ''Write first draft: '' @ description,
       estimated_minutes = estimate_chunk ''draft'' wtype krefs data,
       chunk_work_type = wtype, chunk_knowledge_refs = krefs,
       dependencies = [''chunk_1'']\<rparr>,
      \<lparr>chunk_id = ''chunk_3'',
       chunk_description = ''Review and edit: '' @ description,
       estimated_minutes = estimate_chunk ''edit'' wtype krefs data,
       chunk_work_type = wtype, chunk_knowledge_refs = krefs,
       dependencies = [''chunk_2'']\<rparr>]"

definition meeting_chunks ::
  "string \<Rightarrow> string \<Rightarrow> string list \<Rightarrow> time_data \<Rightarrow> work_chunk list" where
  "meeting_chunks description wtype krefs data =
     [\<lparr>chunk_id = ''chunk_1'',
       chunk_description = ''Prepare for: '' @ description,
       estimated_minutes = estimate_chunk ''prepare'' wtype krefs data,
       chunk_work_type = wtype, chunk_knowledge_refs = krefs, dependencies = []\<rparr>,
      \<lparr>chunk_id = ''chunk_2'',
       chunk_description = ''Attend: '' @ description,
       estimated_minutes = estimate_chunk ''attend'' wtype krefs data,
       chunk_work_type = wtype, chunk_knowledge_refs = krefs,
       dependencies = [''chunk_1'']\<rparr>,
      \<lparr>chunk_id = ''chunk_3'',
       chunk_description = ''Follow-up actions: '' @ description,
       estimated_minutes = estimate_chunk ''followup'' wtype krefs data,
       chunk_work_type = wtype, chunk_knowledge_refs = krefs,
       dependencies = [''chunk_2'']\<rparr>]"

definition generic_chunks ::
  "string \<Rightarrow> string \<Rightarrow> string list \<Rightarrow> complexity \<Rightarrow> time_data \<Rightarrow> work_chunk list" where
  "generic_chunks description wtype krefs cx data =
     (let phase_count = (if complexity_level cx = ''high'' then 4 else 2 :: nat)
      in map (\<lambda>i. \<lparr>chunk_id = ''chunk_'' @ str_nat (i + 1),
                   chunk_description = ''Phase '' @ str_nat (i + 1) @ '': '' @ description,
                   estimated_minutes = estimate_chunk ''generic'' wtype krefs data,
                   chunk_work_type = wtype, chunk_knowledge_refs = krefs,
                   dependencies = (if 0 < i then [''chunk_'' @ str_nat i] else [])\<rparr>)
           [0 ..< phase_count])"

definition generate_chunks_by_type ::
  "string \<Rightarrow> string \<Rightarrow> string list \<Rightarrow> complexity \<Rightarrow> time_data \<Rightarrow> work_chunk list" where
  "generate_chunks_by_type description wtype krefs cx data =
     (if wtype = ''technical'' then technical_chunks description wtype krefs cx data
      else if wtype = ''writing'' then writing_chunks description wtype krefs data
      else if wtype = ''meeting'' then meeting_chunks description wtype krefs data
      else generic_chunks description wtype krefs cx data)"

text \<open>
  \<^verbatim>\<open>suggest_breakdown\<close>; the generated breakdown id and the clock reading are arguments.
\<close>

definition suggest_breakdown ::
  "int \<Rightarrow> string \<Rightarrow> string \<Rightarrow> string \<Rightarrow> string list \<Rightarrow> time_data \<Rightarrow> work_breakdown option" where
  "suggest_breakdown now new_id description wtype krefs data =
     (let cx = analyze_complexity description
      in if complexity_level cx = ''low'' then None
         else
           (let cs = generate_chunks_by_type description wtype krefs cx data
            in if cs = [] then None
               else Some \<lparr>original_work = description,
                          estimated_total = sum_list (map estimated_minutes cs),
                          chunks = cs, breakdown_id = new_id, created_at = now,
                          completed_chunks = []\<rparr>))"

text \<open>
  \<^verbatim>\<open>accept_breakdown\<close>: \<open>new_ids k\<close> is the identifier generated for the \<open>k\<close>-th chunk's
  entry. The entries are planned: they have no start time.
\<close>

definition accept_breakdown ::
  "(nat \<Rightarrow> string) \<Rightarrow> work_breakdown \<Rightarrow> time_data \<Rightarrow> string list \<times> time_data" where
  "accept_breakdown new_ids breakdown data =
     (let stored = (case breakdowns data of None \<Rightarrow> [] | Some bs \<Rightarrow> bs) @ [breakdown];
          planned =
            map (\<lambda>k. let chunk = chunks breakdown ! k
                     in \<lparr>core = \<lparr>entry_id = new_ids k, start_time = None, end_time = None,
                                  duration_minutes = None,
                                  work_description = chunk_description chunk,
                                  work_type = chunk_work_type chunk,
                                  knowledge_refs = chunk_knowledge_refs chunk,
                                  people_refs = [], distractions = [],
                                  completion_percentage = None,
                                  entry_notes =
                                    ''Part of breakdown: '' @ breakdown_id breakdown\<rparr>,
                         meta = Some \<lparr>m_breakdown_id = breakdown_id breakdown,
                                       m_chunk_id = chunk_id chunk,
                                       m_estimated_minutes = estimated_minutes chunk\<rparr>\<rparr>)
              [0 ..< length (chunks breakdown)]
      in (map (\<lambda>e. entry_id (core e)) planned,
          data\<lparr>entries := entries data @ planned, breakdowns := Some stored\<rparr>))"

section \<open>Estimation accuracy\<close>

record deviation_pattern =
  dp_type :: string
  dp_work_type :: string
  dp_estimated :: real
  dp_actual :: int
  dp_error_percentage :: real

record common_pattern =
  cp_work_type :: string
  cp_deviation_type :: string
  cp_occurrence_count :: nat
  cp_average_error_percentage :: real

record estimation_accuracy =
  total_estimates :: nat
  accurate_estimates :: nat
  overestimates :: nat
  underestimates :: nat
  average_error_percentage :: real
  common_deviation_patterns :: "common_pattern list"

text \<open>
  One step of the grouping loop of \<^verbatim>\<open>_identify_common_patterns\<close>: the dictionary keeps
  its keys in insertion order, each key with its count and total error.
\<close>

definition add_pattern ::
  "((string \<times> string) \<times> nat \<times> real) list \<Rightarrow> deviation_pattern
     \<Rightarrow> ((string \<times> string) \<times> nat \<times> real) list" where
  "add_pattern patterns_by_key pattern =
     (let key = (dp_work_type pattern, dp_type pattern);
          known = (if map_of patterns_by_key key = None
                   then patterns_by_key @ [(key, (0, 0))] else patterns_by_key)
      in map (\<lambda>(k, (c, t)).
                if k = key then (k, (c + 1, t + dp_error_percentage pattern))
                else (k, (c, t))) known)"

text \<open>
  \<^verbatim>\<open>sort(key=..., reverse=True)\<close> is stable: patterns of equal count keep their order.
\<close>

definition identify_common_patterns :: "deviation_pattern list \<Rightarrow> common_pattern list" where
  "identify_common_patterns deviation_patterns =
     (if deviation_patterns = [] then []
      else
        (let patterns_by_key = foldl add_pattern [] deviation_patterns;
             common =
               map (\<lambda>((wt, ty), (c, t)).
                      \<lparr>cp_work_type = wt, cp_deviation_type = ty, cp_occurrence_count = c,
                       cp_average_error_percentage = t / real c\<rparr>)
                 (filter (\<lambda>(k, (c, t)). 2 \<le> c) patterns_by_key)
         in sort_key (\<lambda>p. - int (cp_occurrence_count p)) common))"

record accuracy_state =
  st_total :: nat
  st_accurate :: nat
  st_over :: nat
  st_under :: nat
  st_errors :: "real list"
  st_patterns :: "deviation_pattern list"

text \<open>
  The loop \<^verbatim>\<open>for i, entry in enumerate(completed_entries)\<close> of
  \<^verbatim>\<open>analyze_estimation_accuracy\<close>: \<open>prior\<close> is \<^verbatim>\<open>completed_entries[:i]\<close>. The division
  by \<^verbatim>\<open>actual\<close> raises when the entry's duration is zero.
\<close>

fun accuracy_loop ::
  "real \<Rightarrow> time_entry list \<Rightarrow> time_entry list \<Rightarrow> accuracy_state
     \<Rightarrow> py_error + accuracy_state" where
  "accuracy_loop tolerance prior [] st = Inr st"
| "accuracy_loop tolerance prior (entry # rest) st =
     (if prior = [] then accuracy_loop tolerance (prior @ [entry]) rest st
      else
        (let similar_work = filter (\<lambda>e. work_type e = work_type entry) prior
         in if similar_work = [] then accuracy_loop tolerance (prior @ [entry]) rest st
            else
              (let mean = fst (calculate_statistics similar_work)
               in if mean = 0 then accuracy_loop tolerance (prior @ [entry]) rest st
                  else
                    (case duration_minutes entry of
                       None \<Rightarrow> Inl TypeError
                     | Some actual \<Rightarrow>
                         if actual = 0 then Inl ZeroDivisionError
                         else
                           (let error_percentage =
                                  \<bar>real_of_int actual - mean\<bar> / real_of_int actual * 100;
                                st1 = st\<lparr>st_errors := st_errors st @ [error_percentage],
                                         st_total := st_total st + 1\<rparr>;
                                st2 =
                                  (if error_percentage \<le> tolerance
                                   then st1\<lparr>st_accurate := st_accurate st1 + 1\<rparr>
                                   else if real_of_int actual < mean
                                   then st1\<lparr>st_over := st_over st1 + 1,
                                            st_patterns := st_patterns st1 @
                                              [\<lparr>dp_type = ''overestimate'',
                                                dp_work_type = work_type entry,
                                                dp_estimated = mean, dp_actual = actual,
                                                dp_error_percentage = error_percentage\<rparr>]\<rparr>
                                   else st1\<lparr>st_under := st_under st1 + 1,
                                            st_patterns := st_patterns st1 @
                                              [\<lparr>dp_type = ''underestimate'',
                                                dp_work_type = work_type entry,
                                                dp_estimated = mean, dp_actual = actual,
                                                dp_error_percentage = error_percentage\<rparr>]\<rparr>)
                            in accuracy_loop tolerance (prior @ [entry]) rest st2)))))"

text \<open>
  \<^verbatim>\<open>analyze_estimation_accuracy\<close>. \<^verbatim>\<open>TimeEntry(**entry)\<close> is applied to every completed
  dictionary as stored, so one with the extra breakdown keys raises.
\<close>

definition analyze_estimation_accuracy :: "real \<Rightarrow> time_data \<Rightarrow> py_error + estimation_accuracy" where
  "analyze_estimation_accuracy tolerance_percentage data =
     (let completed = filter (\<lambda>e. duration_minutes (core e) \<noteq> None) (entries data)
      in if list_ex (\<lambda>e. meta e \<noteq> None) completed then Inl TypeError
         else if length completed < 2
           then Inr \<lparr>total_estimates = 0, accurate_estimates = 0, overestimates = 0,
                     underestimates = 0, average_error_percentage = 0,
                     common_deviation_patterns = []\<rparr>
         else
           (case accuracy_loop tolerance_percentage [] (map core completed)
                   \<lparr>st_total = 0, st_accurate = 0, st_over = 0, st_under = 0,
                    st_errors = [], st_patterns = []\<rparr> of
              Inl err \<Rightarrow> Inl err
            | Inr st \<Rightarrow>
                Inr \<lparr>total_estimates = st_total st, accurate_estimates = st_accurate st,
                     overestimates = st_over st, underestimates = st_under st,
                     average_error_percentage =
                       (if st_errors st \<noteq> []
                        then sum_list (st_errors st) / real (length (st_errors st))
                        else 0),
                     common_deviation_patterns =
                       identify_common_patterns (st_patterns st)\<rparr>))"

section \<open>Trends\<close>





section \<open>Scenarios\<close>

text \<open>
  Documents reached through the public operations, and the condition that the clock read
  by \<^verbatim>\<open>end_work\<close> was never earlier than the one read by \<^verbatim>\<open>start_work\<close>.
\<close>

definition durations_nonneg :: "time_data \<Rightarrow> bool" where
  "durations_nonneg data =
     list_all (\<lambda>e. case duration_minutes (core e) of None \<Rightarrow> True | Some m \<Rightarrow> 0 \<le> m)
       (entries data)"

text \<open>
  Three pieces of technical work tracked through \<^verbatim>\<open>start_work\<close> and \<^verbatim>\<open>end_work\<close>, lasting
  10, 20 and 30 minutes.
\<close>

definition three_durations :: time_data where
  "three_durations =
     snd (end_work 3600000000 ''c'' [] None
       (snd (start_work 1800000000 ''c'' ''third'' ''technical'' [] []
         (snd (end_work 1800000000 ''b'' [] None
           (snd (start_work 600000000 ''b'' ''second'' ''technical'' [] []
             (snd (end_work 600000000 ''a'' [] None
               (snd (start_work 0 ''a'' ''first'' ''technical'' [] [] empty_data)))))))))))"

text \<open>
  Two pieces of technical work on the knowledge area "API" with "alice", tracked through
  \<^verbatim>\<open>start_work\<close> and \<^verbatim>\<open>end_work\<close>, lasting 10 and 30 minutes.
\<close>

definition api_history :: time_data where
  "api_history =
     snd (end_work 2400000000 ''b'' [] None
       (snd (start_work 600000000 ''b'' ''second'' ''technical'' [''API''] [''alice'']
         (snd (end_work 600000000 ''a'' [] None
           (snd (start_work 0 ''a'' ''first'' ''technical'' [''API''] [''alice'']
                  empty_data)))))))"

text \<open>
  The scenario of the specification: technical work with one 15-minute distraction that
  lasts 60 minutes, then technical work without distraction that lasts 40 minutes.
\<close>

definition distraction_scenario :: time_data where
  "distraction_scenario =
     snd (end_work 6000000000 ''b'' [] None
       (snd (start_work 3600000000 ''b'' ''second'' ''technical'' [] []
         (snd (end_work 3600000000 ''a'' [] None
           (snd (record_distraction 1200000000 ''a'' ''email'' 15 ''inbox''
             (snd (start_work 0 ''a'' ''first'' ''technical'' [] [] empty_data)))))))))"

text \<open>
  Ten minutes of technical work, then technical work started and ended at the same instant
  (the basic lifecycle scenario of the specification, whose duration is 0).
\<close>

definition zero_duration_scenario :: time_data where
  "zero_duration_scenario =
     snd (end_work 600000000 ''b'' [] None
       (snd (start_work 600000000 ''b'' ''second'' ''technical'' [] []
         (snd (end_work 600000000 ''a'' [] None
           (snd (start_work 0 ''a'' ''first'' ''technical'' [] [] empty_data)))))))"

text \<open>
  The breakdown suggested for the writing work "all and then", accepted into an empty
  document; the planned entries get the ids \<open>plan_0\<close>, \<open>plan_1\<close>, \<open>plan_2\<close>.
\<close>

definition planned_scenario :: time_data where
  "planned_scenario =
     (case suggest_breakdown 0 ''breakdown_1'' ''all and then'' ''writing'' [] empty_data of
        None \<Rightarrow> empty_data
      | Some b \<Rightarrow> snd (accept_breakdown (\<lambda>k. ''plan_'' @ str_nat k) b empty_data))"



section \<open>Properties\<close>

lemma find_entry_Some:
  "find_entry w es = Some i \<Longrightarrow> i < length es \<and> entry_id (core (es ! i)) = w"
  by (induction es arbitrary: i) (auto split: if_splits)

lemma find_entry_append_new:
  "find_entry w es = None \<Longrightarrow> entry_id (core e) = w
     \<Longrightarrow> find_entry w (es @ [e]) = Some (length es)"
  by (induction es) (auto split: if_splits)

lemma find_entry_update_fields:
  "entry_id (core e') = entry_id (core (es ! i)) \<Longrightarrow> i < length es
     \<Longrightarrow> find_entry w (es[i := e']) = find_entry w es"
proof (induction es arbitrary: i)
  case Nil
  then show ?case by simp
next
  case (Cons a es)
  then show ?case by (cases i) auto
qed


lemma start_work_entry:
  assumes "find_entry w (entries data) = None"
  shows "find_entry w (entries (snd (start_work t0 w d wt k p data)))
           = Some (length (entries data))"
    and "core (entries (snd (start_work t0 w d wt k p data)) ! length (entries data))
           = \<lparr>entry_id = w, start_time = Some t0, end_time = None,
                duration_minutes = None, work_description = d,
                work_type = wt, knowledge_refs = k, people_refs = p,
                distractions = [], completion_percentage = None, entry_notes = []\<rparr>"
    and "meta (entries (snd (start_work t0 w d wt k p data)) ! length (entries data)) = None"
  using assms by (simp_all add: start_work_def find_entry_append_new)

subsection \<open>C1: the duration stored by \<^verbatim>\<open>end_work\<close>\<close>

text \<open>
  C1, as stated: the stored duration is the elapsed time in minutes rounded to the nearest
  minute. It fails: work started at instant 0 and ended 45 seconds later is stored with
  duration 0, and \<^verbatim>\<open>round(0.75)\<close> is 1.
\<close>

theorem end_work_round_counterexample:
  "fst (end_work 45000000 ''w'' [] None
          (snd (start_work 0 ''w'' ''write spec'' ''writing'' [] [] empty_data)))
     = Inr (Some \<lparr>entry_id = ''w'', start_time = Some 0, end_time = Some 45000000,
                    duration_minutes = Some 0, work_description = ''write spec'',
                    work_type = ''writing'', knowledge_refs = [], people_refs = [],
                    distractions = [], completion_percentage = None, entry_notes = []\<rparr>)
   \<and> py_round (total_seconds (45000000 - 0) / 60) = 1"
  by (simp add: end_work_def start_work_def empty_data_def py_int_def py_round_def
      total_seconds_def Let_def)

text \<open>
  C1, amended: for an entry that has a start time (every entry made by \<^verbatim>\<open>start_work\<close>
  has one, lemma \<open>start_work_entry\<close>), \<^verbatim>\<open>end_work\<close> at clock reading \<open>now\<close> returns the
  entry, stores it, and its duration is
  \<^verbatim>\<open>int((end_time - start_time).total_seconds() / 60)\<close>: the elapsed minutes truncated
  toward zero, not rounded.
\<close>

theorem end_work_duration_truncated:
  assumes found: "find_entry w (entries data) = Some i"
      and st: "start_time (core (entries data ! i)) = Some t0"
      and plain: "meta (entries data ! i) = None"
  shows "\<exists>e. fst (end_work now w n pc data) = Inr (Some e)
           \<and> get_time_entry w (snd (end_work now w n pc data)) = Some e
           \<and> start_time e = Some t0 \<and> end_time e = Some now
           \<and> duration_minutes e = Some (py_int (total_seconds (now - t0) / 60))"
proof -
  from found have i: "i < length (entries data)"
    and idw: "entry_id (core (entries data ! i)) = w"
    using find_entry_Some by blast+
  show ?thesis
  proof (cases pc)
    case None
    with found st plain i idw show ?thesis
      by (simp add: end_work_def get_time_entry_def Let_def find_entry_update_fields)
  next
    case (Some q)
    with found st plain i idw show ?thesis
      by (simp add: end_work_def get_time_entry_def Let_def find_entry_update_fields)
  qed
qed

theorem end_work_duration_truncated_witness:
  "\<exists>e. fst (end_work 630000000 ''w'' [] None
            (snd (start_work 0 ''w'' ''write spec'' ''writing'' [] [] empty_data)))
          = Inr (Some e)
      \<and> start_time e = Some 0 \<and> end_time e = Some 630000000
      \<and> duration_minutes e = Some 10"
proof -
  let ?d = "snd (start_work 0 ''w'' ''write spec'' ''writing'' [] [] empty_data)"
  have fresh: "find_entry ''w'' (entries empty_data) = None"
    by (simp add: empty_data_def)
  have len: "length (entries empty_data) = 0"
    by (simp add: empty_data_def)
  have 1: "find_entry ''w'' (entries ?d) = Some 0"
    using start_work_entry(1) [OF fresh] len by simp
  have 2: "start_time (core (entries ?d ! 0)) = Some 0"
    using start_work_entry(2) [OF fresh, of 0 "''write spec''" "''writing''" "[]" "[]"] len
    by simp
  have 3: "meta (entries ?d ! 0) = None"
    using start_work_entry(3) [OF fresh, of 0 "''write spec''" "''writing''" "[]" "[]"] len
    by simp
  have 4: "py_int (total_seconds (630000000 - 0) / 60) = 10"
    by (simp add: py_int_def total_seconds_def)
  from end_work_duration_truncated [OF 1 2 3, of 630000000 "[]" None]
  obtain e where "fst (end_work 630000000 ''w'' [] None ?d) = Inr (Some e)"
    and "start_time e = Some 0" and "end_time e = Some 630000000"
    and "duration_minutes e = Some (py_int (total_seconds (630000000 - 0) / 60))"
    by blast
  with 4 show ?thesis by auto
qed

subsection \<open>C2: when \<^verbatim>\<open>suggest_breakdown\<close> returns nothing\<close>

lemma technical_chunks_empty:
  "technical_chunks d wt k cx data = [] \<longleftrightarrow>
     (\<not> any_word [''design'', ''architecture'', ''plan'', ''spec''] (lower d)
      \<and> \<not> any_word [''implement'', ''build'', ''create'', ''develop'', ''code''] (lower d)
      \<and> \<not> any_word [''test'', ''verify'', ''validate''] (lower d)
      \<and> \<not> any_word [''document'', ''doc'', ''write''] (lower d)
      \<and> complexity_level cx \<noteq> ''high'')"
  unfolding technical_chunks_def Let_def by auto

lemma fixed_phases_nonempty:
  "writing_chunks d wt k data \<noteq> []" "meeting_chunks d wt k data \<noteq> []"
  by (simp_all add: writing_chunks_def meeting_chunks_def)

lemma generic_chunks_nonempty: "generic_chunks d wt k cx data \<noteq> []"
  by (simp add: generic_chunks_def Let_def)

lemma chunks_empty:
  "generate_chunks_by_type d wt k cx data = [] \<longleftrightarrow>
     (wt = ''technical'' \<and> technical_chunks d wt k cx data = [])"
  by (simp add: generate_chunks_by_type_def fixed_phases_nonempty generic_chunks_nonempty)

lemma all_and_then_medium:
  "complexity_level (analyze_complexity ''all and then'') = ''medium''"
  by (simp add: analyze_complexity_def lower_def lower_char_def count_hits_def
      action_verbs_def conjunctions_def scope_words_def Let_def)

lemma fix_it_low:
  "complexity_level (analyze_complexity ''fix it'') = ''low''"
  by (simp add: analyze_complexity_def lower_def lower_char_def count_hits_def
      action_verbs_def conjunctions_def scope_words_def Let_def)

text \<open>
  C2, as stated: \<^verbatim>\<open>suggest_breakdown\<close> returns null if and only if the complexity level is
  "low". It fails: the description "all and then" scores 3 (two conjunctions, one scope
  word), so its level is "medium"; for work type "technical" it names no phase keyword, no
  chunk is generated, and \<^verbatim>\<open>if not chunks: return None\<close> returns null.
\<close>

theorem suggest_breakdown_medium_counterexample:
  "complexity_level (analyze_complexity ''all and then'') = ''medium''
   \<and> suggest_breakdown 0 ''breakdown_1'' ''all and then'' ''technical'' [] empty_data = None"
  by (simp add: suggest_breakdown_def generate_chunks_by_type_def technical_chunks_def
      any_word_def analyze_complexity_def lower_def lower_char_def count_hits_def
      action_verbs_def conjunctions_def scope_words_def Let_def)

text \<open>
  C2, amended: \<^verbatim>\<open>suggest_breakdown\<close> returns null if and only if the complexity level is
  "low", or the work type is "technical", the level is not "high" and the lower-cased
  description contains none of the design, implementation, test and documentation
  keywords. In every other case (level "medium" or "high" with a work type other than
  "technical"; technical work of level "high" or naming a phase keyword) a breakdown is
  returned.
\<close>

theorem suggest_breakdown_gating:
  "suggest_breakdown now bid d wt k data = None \<longleftrightarrow>
     (complexity_level (analyze_complexity d) = ''low''
      \<or> (wt = ''technical''
          \<and> complexity_level (analyze_complexity d) \<noteq> ''high''
          \<and> \<not> any_word [''design'', ''architecture'', ''plan'', ''spec''] (lower d)
          \<and> \<not> any_word [''implement'', ''build'', ''create'', ''develop'', ''code'']
                (lower d)
          \<and> \<not> any_word [''test'', ''verify'', ''validate''] (lower d)
          \<and> \<not> any_word [''document'', ''doc'', ''write''] (lower d)))"
  unfolding suggest_breakdown_def Let_def
  by (auto simp: chunks_empty technical_chunks_empty)

theorem suggest_breakdown_gating_witness:
  "suggest_breakdown 0 ''breakdown_1'' ''all and then'' ''writing'' [] empty_data \<noteq> None
   \<and> suggest_breakdown 0 ''breakdown_1'' ''fix it'' ''writing'' [] empty_data = None"
  using suggest_breakdown_gating [of 0 "''breakdown_1''" "''all and then''" "''writing''"
      "[]" empty_data]
    suggest_breakdown_gating [of 0 "''breakdown_1''" "''fix it''" "''writing''"
      "[]" empty_data]
    all_and_then_medium fix_it_low
  by simp

subsection \<open>C5: population statistics\<close>

lemma map_filter_durations:
  "map duration_minutes es = map Some ds \<Longrightarrow> List.map_filter duration_minutes es = ds"
  by (induction es arbitrary: ds) (auto simp: List.map_filter_def)

lemma map_filter_completed:
  "List.map_filter duration_minutes (filter (\<lambda>e. duration_minutes e \<noteq> None) es)
     = List.map_filter duration_minutes es"
  by (induction es) (auto simp: List.map_filter_def)

lemma calculate_statistics_three:
  assumes "map duration_minutes es = [Some 10, Some 20, Some 30]"
  shows "calculate_statistics es = (20, 200 / 3)"
proof -
  from assms have "map duration_minutes es = map Some [10, 20, 30]" by simp
  then have ds: "List.map_filter duration_minutes es = [10, 20, 30]"
    by (rule map_filter_durations)
  from assms have ne: "es \<noteq> []" by auto
  show ?thesis using ne ds
    by (simp add: calculate_statistics_def Let_def power2_eq_square)
qed

lemma calculate_statistics_population:
  assumes "List.map_filter duration_minutes es = ds" and "ds \<noteq> []"
  shows "calculate_statistics es =
           (real_of_int (sum_list ds) / real (length ds),
            (\<Sum>d\<leftarrow>ds. (real_of_int d - real_of_int (sum_list ds) / real (length ds))\<^sup>2)
              / real (length ds))"
proof -
  from assms have ne: "es \<noteq> []" by (auto simp: List.map_filter_def)
  show ?thesis
  proof (cases "length ds = 1")
    case True
    then obtain d where "ds = [d]" by (cases ds) auto
    with ne assms show ?thesis by (simp add: calculate_statistics_def Let_def)
  next
    case False
    with ne assms show ?thesis by (simp add: calculate_statistics_def Let_def)
  qed
qed

lemma calculate_statistics_completed:
  "calculate_statistics es = calculate_statistics (filter (\<lambda>e. duration_minutes e \<noteq> None) es)"
proof (cases "List.map_filter duration_minutes es = []")
  case True
  then show ?thesis using map_filter_completed [of es]
    by (simp add: calculate_statistics_def Let_def)
next
  case False
  then have "es \<noteq> []" and "filter (\<lambda>e. duration_minutes e \<noteq> None) es \<noteq> []"
    using map_filter_completed [of es] by (auto simp: List.map_filter_def)
  then show ?thesis using map_filter_completed [of es]
    by (simp add: calculate_statistics_def Let_def)
qed

lemma three_durations_eval:
  "map duration_minutes (get_all_entries three_durations) = [Some 10, Some 20, Some 30]"
  by (simp add: three_durations_def get_all_entries_def end_work_def start_work_def
      empty_data_def py_int_def total_seconds_def Let_def)

text \<open>
  C5: \<^verbatim>\<open>calculate_statistics\<close> returns (0, 0) for no entries and (duration, 0) for one
  completed entry; for durations 10, 20, 30 it returns mean 20 and variance 200/3; entries
  without a duration do not count; and whenever some entry has a duration the result is
  the population mean and the population variance (the sum of squared deviations divided
  by the number N of durations) of the durations.
\<close>

theorem calculate_statistics_spec:
  "calculate_statistics [] = (0, 0)
   \<and> (\<forall>x d. duration_minutes x = Some d \<longrightarrow> calculate_statistics [x] = (real_of_int d, 0))
   \<and> (\<forall>es. map duration_minutes es = [Some 10, Some 20, Some 30]
          \<longrightarrow> calculate_statistics es = (20, 200 / 3))
   \<and> (\<forall>es. calculate_statistics es
            = calculate_statistics (filter (\<lambda>e. duration_minutes e \<noteq> None) es))
   \<and> (\<forall>es ds. List.map_filter duration_minutes es = ds \<and> ds \<noteq> []
          \<longrightarrow> calculate_statistics es =
               (real_of_int (sum_list ds) / real (length ds),
                (\<Sum>d\<leftarrow>ds. (real_of_int d - real_of_int (sum_list ds) / real (length ds))\<^sup>2)
                  / real (length ds)))"
proof (intro conjI allI impI)
  show "calculate_statistics [] = (0, 0)"
    by (simp add: calculate_statistics_def)
next
  fix x :: time_entry and d
  assume "duration_minutes x = Some d"
  then show "calculate_statistics [x] = (real_of_int d, 0)"
    by (simp add: calculate_statistics_def List.map_filter_def)
next
  fix es :: "time_entry list"
  assume "map duration_minutes es = [Some 10, Some 20, Some 30]"
  then show "calculate_statistics es = (20, 200 / 3)"
    by (rule calculate_statistics_three)
next
  fix es :: "time_entry list"
  show "calculate_statistics es
          = calculate_statistics (filter (\<lambda>e. duration_minutes e \<noteq> None) es)"
    by (rule calculate_statistics_completed)
next
  fix es :: "time_entry list" and ds
  assume "List.map_filter duration_minutes es = ds \<and> ds \<noteq> []"
  then show "calculate_statistics es =
               (real_of_int (sum_list ds) / real (length ds),
                (\<Sum>d\<leftarrow>ds. (real_of_int d - real_of_int (sum_list ds) / real (length ds))\<^sup>2)
                  / real (length ds))"
    using calculate_statistics_population by simp
qed

theorem calculate_statistics_spec_witness:
  "calculate_statistics (get_all_entries three_durations) = (20, 200 / 3)
   \<and> calculate_statistics (take 1 (get_all_entries three_durations)) = (10, 0)
   \<and> List.map_filter duration_minutes (get_all_entries three_durations) = [10, 20, 30]
   \<and> calculate_statistics (get_all_entries three_durations)
       = (real_of_int (sum_list [10, 20, 30]) / real (length [10, 20, 30 :: int]),
          (\<Sum>d\<leftarrow>[10, 20, 30].
              (real_of_int d - real_of_int (sum_list [10, 20, 30])
                                / real (length [10, 20, 30 :: int]))\<^sup>2)
            / real (length [10, 20, 30 :: int]))"
proof -
  let ?es = "get_all_entries three_durations"
  have three: "map duration_minutes ?es = [Some 10, Some 20, Some 30]"
    by (rule three_durations_eval)
  then obtain x rest where es: "?es = x # rest" by (cases ?es) auto
  with three have x: "duration_minutes x = Some 10" by simp
  from three have "map duration_minutes ?es = map Some [10, 20, 30]" by simp
  then have ds: "List.map_filter duration_minutes ?es = [10, 20, 30]"
    by (rule map_filter_durations)
  have third: "\<forall>es. map duration_minutes es = [Some 10, Some 20, Some 30]
          \<longrightarrow> calculate_statistics es = (20, 200 / 3)"
    and second: "\<forall>x d. duration_minutes x = Some d
          \<longrightarrow> calculate_statistics [x] = (real_of_int d, 0)"
    and fifth: "\<forall>es ds. List.map_filter duration_minutes es = ds \<and> ds \<noteq> []
          \<longrightarrow> calculate_statistics es =
               (real_of_int (sum_list ds) / real (length ds),
                (\<Sum>d\<leftarrow>ds. (real_of_int d - real_of_int (sum_list ds) / real (length ds))\<^sup>2)
                  / real (length ds))"
    using calculate_statistics_spec by simp_all
  from third three have a: "calculate_statistics ?es = (20, 200 / 3)"
    by (rule_tac mp [OF spec [OF third]])
  from second x have b: "calculate_statistics [x] = (real_of_int 10, 0)"
    by (rule_tac mp [OF spec [OF spec [OF second]]])
  have "List.map_filter duration_minutes ?es = [10, 20, 30] \<and> [10, 20, 30 :: int] \<noteq> []"
    using ds by simp
  then have c: "calculate_statistics ?es
       = (real_of_int (sum_list [10, 20, 30]) / real (length [10, 20, 30 :: int]),
          (\<Sum>d\<leftarrow>[10, 20, 30].
              (real_of_int d - real_of_int (sum_list [10, 20, 30])
                                / real (length [10, 20, 30 :: int]))\<^sup>2)
            / real (length [10, 20, 30 :: int]))"
    by (rule mp [OF spec [OF spec [OF fifth]]])
  from b es have b': "calculate_statistics (take 1 ?es) = (10, 0)" by simp
  from a b' ds c show ?thesis by (intro conjI)
qed

subsection \<open>C7: similar work does not depend on the description\<close>

lemma similar_entries_filter:
  "similar_entries wt k es =
     map core (filter (\<lambda>e. duration_minutes (core e) \<noteq> None \<and> work_type (core e) = wt
                          \<and> (k = [] \<or> set (knowledge_refs (core e)) \<inter> set k \<noteq> {})) es)"
  by (induction es) auto

text \<open>
  C7: two calls of \<^verbatim>\<open>find_similar_work\<close> on the same document with the same work type
  and knowledge references return the same entries whatever the two descriptions are;
  the result is the completed entries of exactly that work type, restricted, when the
  query has knowledge references, to the entries that share at least one of them.
\<close>

theorem find_similar_work_description_blind:
  "find_similar_work d1 wt k data = find_similar_work d2 wt k data
   \<and> find_similar_work d1 wt k data =
       map core (filter (\<lambda>e. duration_minutes (core e) \<noteq> None \<and> work_type (core e) = wt
                            \<and> (k = [] \<or> set (knowledge_refs (core e)) \<inter> set k \<noteq> {}))
                  (entries data))"
  by (simp add: find_similar_work_def similar_entries_filter)

theorem find_similar_work_description_blind_witness:
  "find_similar_work ''fix the parser'' ''technical'' [] three_durations
     = find_similar_work ''write a poem'' ''technical'' [] three_durations
   \<and> map duration_minutes (find_similar_work ''fix the parser'' ''technical'' []
        three_durations) = [Some 10, Some 20, Some 30]"
proof -
  have "map duration_minutes (find_similar_work ''fix the parser'' ''technical'' []
        three_durations) = [Some 10, Some 20, Some 30]"
    by (simp add: find_similar_work_def three_durations_def end_work_def start_work_def
        empty_data_def py_int_def total_seconds_def Let_def)
  with find_similar_work_description_blind
    [of "''fix the parser''" "''technical''" "[]" three_durations "''write a poem''"]
  show ?thesis by simp
qed

subsection \<open>C4: the range of an estimate\<close>

lemma generate_estimate_range:
  assumes "generate_estimate d wt k data = Some r"
  shows "min_estimate r = max 0 (mean_minutes r - std_dev r)
         \<and> max_estimate r = mean_minutes r + std_dev r
         \<and> confidence_range r = (min_estimate r, max_estimate r)
         \<and> 0 \<le> min_estimate r"
  using assms
  by (auto simp: generate_estimate_def Let_def split: if_splits prod.splits)

lemma collaboration_estimate_range:
  assumes "generate_collaboration_adjusted_estimate d wt p k data = Inr (Some r)"
  shows "min_estimate r = max 0 (mean_minutes r - std_dev r)
         \<and> max_estimate r = mean_minutes r + std_dev r
         \<and> confidence_range r = (min_estimate r, max_estimate r)
         \<and> 0 \<le> min_estimate r"
proof (cases "generate_estimate d wt k data")
  case None
  with assms show ?thesis
    by (simp add: generate_collaboration_adjusted_estimate_def)
next
  case (Some b)
  note base = generate_estimate_range [OF Some]
  from assms Some consider "r = b"
    | m v where "r = \<lparr>mean_minutes = m, variance = v, std_dev = sqrt v,
                       min_estimate = max 0 (m - sqrt v), max_estimate = m + sqrt v,
                       confidence_range = (max 0 (m - sqrt v), m + sqrt v),
                       similar_work_count = similar_work_count r,
                       similar_work_ids = similar_work_ids r\<rparr>"
    by (auto simp: generate_collaboration_adjusted_estimate_def Let_def
        split: if_splits prod.splits)
  then show ?thesis
  proof cases
    case 1
    with base show ?thesis by simp
  next
    case 2
    have "min_estimate r = max 0 (m - sqrt v)" "max_estimate r = m + sqrt v"
      "mean_minutes r = m" "std_dev r = sqrt v"
      "confidence_range r = (max 0 (m - sqrt v), m + sqrt v)"
      by (subst 2, simp)+
    then show ?thesis by simp
  qed
qed

lemma experience_factor_positive: "0 < snd (experience_adjustment t)"
  by (simp add: experience_adjustment_def)

lemma experience_estimate_scaled:
  assumes "generate_experience_adjusted_estimate d wt k data = Some r"
  shows "\<exists>b f. generate_estimate d wt k data = Some b \<and> 0 < f
           \<and> mean_minutes r = mean_minutes b * f
           \<and> min_estimate r = max 0 (mean_minutes b - std_dev b) * f
           \<and> max_estimate r = (mean_minutes b + std_dev b) * f
           \<and> std_dev r = std_dev b
           \<and> confidence_range r = (min_estimate r, max_estimate r)
           \<and> 0 \<le> min_estimate r"
proof (cases "generate_estimate d wt k data")
  case None
  with assms show ?thesis by (simp add: generate_experience_adjusted_estimate_def)
next
  case (Some b)
  note base = generate_estimate_range [OF Some]
  show ?thesis
  proof (cases "k = []")
    case True
    with assms Some have "r = b" by (simp add: generate_experience_adjusted_estimate_def)
    with base Some show ?thesis
      by (intro exI [of _ b] exI [of _ 1]) simp
  next
    case False
    define f where "f = snd (experience_adjustment (total_experience k data))"
    have f: "0 < f" unfolding f_def by (rule experience_factor_positive)
    from assms Some False
    have r: "r = \<lparr>mean_minutes = mean_minutes b * f, variance = variance b,
                  std_dev = std_dev b, min_estimate = min_estimate b * f,
                  max_estimate = max_estimate b * f,
                  confidence_range = (min_estimate b * f, max_estimate b * f),
                  similar_work_count = similar_work_count b,
                  similar_work_ids = similar_work_ids b\<rparr>"
      by (simp add: generate_experience_adjusted_estimate_def Let_def f_def
          split: prod.splits)
    have "mean_minutes r = mean_minutes b * f" "min_estimate r = min_estimate b * f"
      "max_estimate r = max_estimate b * f" "std_dev r = std_dev b"
      "confidence_range r = (min_estimate b * f, max_estimate b * f)"
      by (subst r, simp)+
    with base f Some show ?thesis
      by (intro exI [of _ b] exI [of _ f]) simp
  qed
qed

lemma sum_durations_nonneg:
  "list_all (\<lambda>e. case duration_minutes (core e) of None \<Rightarrow> True | Some m \<Rightarrow> 0 \<le> m)
       (es :: entry_dict list)
     \<Longrightarrow> 0 \<le> sum_list (List.map_filter (\<lambda>e. duration_minutes (core e)) es)"
  by (induction es) (auto simp: List.map_filter_def split: option.splits)

lemma list_all_filter_keep: "list_all P es \<Longrightarrow> list_all P (filter Q es)"
  by (induction es) auto

lemma distraction_factor_nonneg:
  assumes "durations_nonneg data"
  shows "0 \<le> 1 + average_distraction_overhead_percentage
                    (calculate_distraction_impact w data) / 100"
proof -
  define P :: "entry_dict \<Rightarrow> bool" where "P = (\<lambda>e. case duration_minutes (core e) of None \<Rightarrow> True
                          | Some m \<Rightarrow> (0::int) \<le> m)"
  have nn: "\<And>es. list_all P es
      \<Longrightarrow> 0 \<le> real_of_int (sum_list (List.map_filter (\<lambda>e. duration_minutes (core e)) es))"
    unfolding P_def using sum_durations_nonneg by fastforce
  define es where "es = (case w of
      None \<Rightarrow> filter (\<lambda>e. duration_minutes (core e) \<noteq> None) (entries data)
    | Some wt \<Rightarrow> filter (\<lambda>e. work_type (core e) = wt)
        (filter (\<lambda>e. duration_minutes (core e) \<noteq> None) (entries data)))"
  from assms have all: "list_all P es"
    unfolding durations_nonneg_def es_def P_def
    by (auto intro: list_all_filter_keep split: option.splits)
  define a where "a = average_duration_with_distractions (calculate_distraction_impact w data)"
  define b where "b = average_duration_without_distractions
                        (calculate_distraction_impact w data)"
  have a: "0 \<le> a"
    unfolding a_def calculate_distraction_impact_def Let_def
    using nn [OF list_all_filter_keep [OF all, of "\<lambda>e. distractions (core e) \<noteq> []"]]
    by (simp add: es_def)
  have pct: "average_distraction_overhead_percentage (calculate_distraction_impact w data)
      = (if 0 < b then (a - b) / b * 100 else 0)"
    unfolding a_def b_def calculate_distraction_impact_def Let_def by simp
  show ?thesis
  proof (cases "0 < b")
    case True
    then have "1 + ((a - b) / b * 100) / 100 = a / b" by (simp add: field_simps)
    with a True pct show ?thesis by simp
  next
    case False
    with pct show ?thesis by simp
  qed
qed

lemma distraction_estimate_scaled:
  assumes "generate_estimate_with_distraction_overhead d wt k data = Some r"
  shows "\<exists>b f. generate_estimate d wt k data = Some b
           \<and> mean_minutes r = mean_minutes b * f
           \<and> min_estimate r = max 0 (mean_minutes b - std_dev b) * f
           \<and> max_estimate r = (mean_minutes b + std_dev b) * f
           \<and> std_dev r = std_dev b
           \<and> confidence_range r = (min_estimate r, max_estimate r)
           \<and> (durations_nonneg data \<longrightarrow> 0 \<le> f \<and> 0 \<le> min_estimate r)"
proof (cases "generate_estimate d wt k data")
  case None
  with assms show ?thesis by (simp add: generate_estimate_with_distraction_overhead_def)
next
  case (Some b)
  note base = generate_estimate_range [OF Some]
  define imp where "imp = calculate_distraction_impact (Some wt) data"
  show ?thesis
  proof (cases "0 < entries_with_distractions imp")
    case False
    with assms Some have "r = b"
      by (simp add: generate_estimate_with_distraction_overhead_def Let_def imp_def)
    with base Some show ?thesis
      by (intro exI [of _ b] exI [of _ 1]) simp
  next
    case True
    define f where "f = 1 + average_distraction_overhead_percentage imp / 100"
    from assms Some True
    have r: "r = \<lparr>mean_minutes = mean_minutes b * f, variance = variance b,
                  std_dev = std_dev b, min_estimate = min_estimate b * f,
                  max_estimate = max_estimate b * f,
                  confidence_range = (min_estimate b * f, max_estimate b * f),
                  similar_work_count = similar_work_count b,
                  similar_work_ids = similar_work_ids b\<rparr>"
      by (simp add: generate_estimate_with_distraction_overhead_def Let_def f_def imp_def)
    have sel: "mean_minutes r = mean_minutes b * f" "min_estimate r = min_estimate b * f"
      "max_estimate r = max_estimate b * f" "std_dev r = std_dev b"
      "confidence_range r = (min_estimate b * f, max_estimate b * f)"
      by (subst r, simp)+
    have "durations_nonneg data \<longrightarrow> 0 \<le> f \<and> 0 \<le> min_estimate r"
    proof
      assume "durations_nonneg data"
      then have "0 \<le> f" unfolding f_def imp_def by (rule distraction_factor_nonneg)
      moreover from base have "0 \<le> min_estimate b" by simp
      ultimately show "0 \<le> f \<and> 0 \<le> min_estimate r" using sel by simp
    qed
    with sel base Some show ?thesis
      by (intro exI [of _ b] exI [of _ f]) simp
  qed
qed


lemma api_history_entries:
  "entries api_history =
     [\<lparr>core = \<lparr>entry_id = ''a'', start_time = Some 0, end_time = Some 600000000,
                duration_minutes = Some 10, work_description = ''first'',
                work_type = ''technical'', knowledge_refs = [''API''],
                people_refs = [''alice''], distractions = [],
                completion_percentage = None, entry_notes = []\<rparr>,
       meta = None\<rparr>,
      \<lparr>core = \<lparr>entry_id = ''b'', start_time = Some 600000000, end_time = Some 2400000000,
                duration_minutes = Some 30, work_description = ''second'',
                work_type = ''technical'', knowledge_refs = [''API''],
                people_refs = [''alice''], distractions = [],
                completion_percentage = None, entry_notes = []\<rparr>,
       meta = None\<rparr>]"
  by (simp add: api_history_def end_work_def start_work_def empty_data_def py_int_def
      total_seconds_def Let_def)

lemma sqrt_100: "sqrt 100 = 10"
  by (rule real_sqrt_unique) simp_all

lemma api_history_estimate:
  "generate_estimate ''new endpoint'' ''technical'' [''API''] api_history =
     Some \<lparr>mean_minutes = 20, variance = 100, std_dev = 10, min_estimate = 10,
            max_estimate = 30, confidence_range = (10, 30), similar_work_count = 2,
            similar_work_ids = [''a'', ''b'']\<rparr>"
  by (simp add: generate_estimate_def find_similar_work_def api_history_entries
      calculate_statistics_def List.map_filter_def Let_def sqrt_100 power2_eq_square)

lemma api_history_experience: "total_experience [''API''] api_history = 40"
  by (simp add: total_experience_def get_knowledge_time_investment_def
      get_entries_by_knowledge_def api_history_entries List.map_filter_def Let_def)

lemma api_history_experience_estimate:
  "generate_experience_adjusted_estimate ''new endpoint'' ''technical'' [''API'']
      api_history =
     Some \<lparr>mean_minutes = 24, variance = 100, std_dev = 10, min_estimate = 12,
            max_estimate = 36, confidence_range = (12, 36), similar_work_count = 2,
            similar_work_ids = [''a'', ''b'']\<rparr>"
  by (simp add: generate_experience_adjusted_estimate_def api_history_estimate
      api_history_experience experience_adjustment_def Let_def)

lemma api_history_collaboration_estimate:
  "generate_collaboration_adjusted_estimate ''new endpoint'' ''technical'' [''alice'']
      [''API''] api_history =
     Inr (Some \<lparr>mean_minutes = 20, variance = 100, std_dev = 10, min_estimate = 10,
            max_estimate = 30, confidence_range = (10, 30), similar_work_count = 2,
            similar_work_ids = [''a'', ''b'']\<rparr>)"
  by (simp add: generate_collaboration_adjusted_estimate_def api_history_estimate
      api_history_entries calculate_statistics_def List.map_filter_def Let_def sqrt_100
      power2_eq_square)

lemma distraction_scenario_entries:
  "entries distraction_scenario =
     [\<lparr>core = \<lparr>entry_id = ''a'', start_time = Some 0, end_time = Some 3600000000,
                duration_minutes = Some 60, work_description = ''first'',
                work_type = ''technical'', knowledge_refs = [], people_refs = [],
                distractions = [\<lparr>d_type = ''email'', d_duration_minutes = 15,
                                  d_description = ''inbox'', d_timestamp = 1200000000\<rparr>],
                completion_percentage = None, entry_notes = []\<rparr>,
       meta = None\<rparr>,
      \<lparr>core = \<lparr>entry_id = ''b'', start_time = Some 3600000000, end_time = Some 6000000000,
                duration_minutes = Some 40, work_description = ''second'',
                work_type = ''technical'', knowledge_refs = [], people_refs = [],
                distractions = [], completion_percentage = None, entry_notes = []\<rparr>,
       meta = None\<rparr>]"
  by (simp add: distraction_scenario_def end_work_def start_work_def record_distraction_def
      empty_data_def py_int_def total_seconds_def Let_def)

lemma distraction_scenario_impact:
  "calculate_distraction_impact (Some ''technical'') distraction_scenario =
     \<lparr>average_duration_with_distractions = 60,
      average_duration_without_distractions = 40,
      average_distraction_overhead_minutes = 20,
      average_distraction_overhead_percentage = 50,
      total_distraction_time = 15,
      entries_with_distractions = 1,
      entries_without_distractions = 1\<rparr>"
  by (simp add: calculate_distraction_impact_def distraction_scenario_entries
      List.map_filter_def Let_def)

lemma distraction_scenario_estimate:
  "generate_estimate ''third'' ''technical'' [] distraction_scenario =
     Some \<lparr>mean_minutes = 50, variance = 100, std_dev = 10, min_estimate = 40,
            max_estimate = 60, confidence_range = (40, 60), similar_work_count = 2,
            similar_work_ids = [''a'', ''b'']\<rparr>"
  by (simp add: generate_estimate_def find_similar_work_def distraction_scenario_entries
      calculate_statistics_def List.map_filter_def Let_def sqrt_100 power2_eq_square)

lemma distraction_scenario_overhead_estimate:
  "generate_estimate_with_distraction_overhead ''third'' ''technical'' []
      distraction_scenario =
     Some \<lparr>mean_minutes = 75, variance = 100, std_dev = 10, min_estimate = 60,
            max_estimate = 90, confidence_range = (60, 90), similar_work_count = 2,
            similar_work_ids = [''a'', ''b'']\<rparr>"
  by (simp add: generate_estimate_with_distraction_overhead_def
      distraction_scenario_estimate distraction_scenario_impact Let_def)

lemma distraction_scenario_nonneg: "durations_nonneg distraction_scenario"
  by (simp add: durations_nonneg_def distraction_scenario_entries)

text \<open>
  C4, as stated: every estimate returned by any of the four operations has
  \<open>min_estimate = max(0, mean_minutes - std_dev)\<close> and
  \<open>max_estimate = mean_minutes + std_dev\<close>. It fails for the experience-adjusted
  estimate: on the history above, the base estimate has mean 20 and standard deviation 10,
  the total experience of 40 minutes is the novice tier, and the result has mean 24,
  standard deviation 10 and range (12, 36), where \<open>max(0, 24 - 10) = 14\<close> and
  \<open>24 + 10 = 34\<close>.
\<close>

theorem experience_estimate_range_counterexample:
  "generate_experience_adjusted_estimate ''new endpoint'' ''technical'' [''API'']
      api_history =
     Some \<lparr>mean_minutes = 24, variance = 100, std_dev = 10, min_estimate = 12,
            max_estimate = 36, confidence_range = (12, 36), similar_work_count = 2,
            similar_work_ids = [''a'', ''b'']\<rparr>
   \<and> max 0 (24 - 10) \<noteq> (12 :: real) \<and> 24 + 10 \<noteq> (36 :: real)"
  by (simp add: api_history_experience_estimate)

text \<open>
  C4, amended: an estimate returned by \<^verbatim>\<open>generate_estimate\<close> or by
  \<^verbatim>\<open>generate_collaboration_adjusted_estimate\<close> satisfies
  \<open>min_estimate = max(0, mean_minutes - std_dev)\<close>,
  \<open>max_estimate = mean_minutes + std_dev\<close> and
  \<open>confidence_range = (min_estimate, max_estimate)\<close>, so \<open>min_estimate\<close> is never negative.
  An estimate returned by \<^verbatim>\<open>generate_experience_adjusted_estimate\<close> or by
  \<^verbatim>\<open>generate_estimate_with_distraction_overhead\<close> has the base estimate's mean, minimum
  and maximum each multiplied by one factor \<open>f\<close> and the base estimate's standard
  deviation unchanged: \<open>min_estimate = max(0, mean - std_dev) * f\<close> and
  \<open>max_estimate = (mean + std_dev) * f\<close> for the base values, with
  \<open>confidence_range = (min_estimate, max_estimate)\<close>. The experience factor is positive,
  so that minimum is never negative; the distraction factor and minimum are not negative
  when no stored duration is negative.
\<close>

theorem estimate_ranges:
  "(\<forall>r. generate_estimate d wt k data = Some r \<longrightarrow>
        min_estimate r = max 0 (mean_minutes r - std_dev r)
        \<and> max_estimate r = mean_minutes r + std_dev r
        \<and> confidence_range r = (min_estimate r, max_estimate r)
        \<and> 0 \<le> min_estimate r)
   \<and> (\<forall>r. generate_collaboration_adjusted_estimate d wt p k data = Inr (Some r) \<longrightarrow>
        min_estimate r = max 0 (mean_minutes r - std_dev r)
        \<and> max_estimate r = mean_minutes r + std_dev r
        \<and> confidence_range r = (min_estimate r, max_estimate r)
        \<and> 0 \<le> min_estimate r)
   \<and> (\<forall>r. generate_experience_adjusted_estimate d wt k data = Some r \<longrightarrow>
        (\<exists>b f. generate_estimate d wt k data = Some b \<and> 0 < f
           \<and> mean_minutes r = mean_minutes b * f
           \<and> min_estimate r = max 0 (mean_minutes b - std_dev b) * f
           \<and> max_estimate r = (mean_minutes b + std_dev b) * f
           \<and> std_dev r = std_dev b
           \<and> confidence_range r = (min_estimate r, max_estimate r)
           \<and> 0 \<le> min_estimate r))
   \<and> (\<forall>r. generate_estimate_with_distraction_overhead d wt k data = Some r \<longrightarrow>
        (\<exists>b f. generate_estimate d wt k data = Some b
           \<and> mean_minutes r = mean_minutes b * f
           \<and> min_estimate r = max 0 (mean_minutes b - std_dev b) * f
           \<and> max_estimate r = (mean_minutes b + std_dev b) * f
           \<and> std_dev r = std_dev b
           \<and> confidence_range r = (min_estimate r, max_estimate r)
           \<and> (durations_nonneg data \<longrightarrow> 0 \<le> f \<and> 0 \<le> min_estimate r)))"
proof (intro conjI allI impI)
  fix r
  assume g: "generate_estimate d wt k data = Some r"
  from generate_estimate_range [OF g]
  show "min_estimate r = max 0 (mean_minutes r - std_dev r)"
    and "max_estimate r = mean_minutes r + std_dev r"
    and "confidence_range r = (min_estimate r, max_estimate r)"
    and "0 \<le> min_estimate r"
    by simp_all
next
  fix r
  assume g: "generate_collaboration_adjusted_estimate d wt p k data = Inr (Some r)"
  from collaboration_estimate_range [OF g]
  show "min_estimate r = max 0 (mean_minutes r - std_dev r)"
    and "max_estimate r = mean_minutes r + std_dev r"
    and "confidence_range r = (min_estimate r, max_estimate r)"
    and "0 \<le> min_estimate r"
    by simp_all
next
  fix r
  assume "generate_experience_adjusted_estimate d wt k data = Some r"
  then show "\<exists>b f. generate_estimate d wt k data = Some b \<and> 0 < f
           \<and> mean_minutes r = mean_minutes b * f
           \<and> min_estimate r = max 0 (mean_minutes b - std_dev b) * f
           \<and> max_estimate r = (mean_minutes b + std_dev b) * f
           \<and> std_dev r = std_dev b
           \<and> confidence_range r = (min_estimate r, max_estimate r)
           \<and> 0 \<le> min_estimate r"
    by (rule experience_estimate_scaled)
next
  fix r
  assume "generate_estimate_with_distraction_overhead d wt k data = Some r"
  then show "\<exists>b f. generate_estimate d wt k data = Some b
           \<and> mean_minutes r = mean_minutes b * f
           \<and> min_estimate r = max 0 (mean_minutes b - std_dev b) * f
           \<and> max_estimate r = (mean_minutes b + std_dev b) * f
           \<and> std_dev r = std_dev b
           \<and> confidence_range r = (min_estimate r, max_estimate r)
           \<and> (durations_nonneg data \<longrightarrow> 0 \<le> f \<and> 0 \<le> min_estimate r)"
    by (rule distraction_estimate_scaled)
qed


theorem estimate_ranges_witness:
  "(\<exists>r. generate_estimate ''new endpoint'' ''technical'' [''API''] api_history = Some r
        \<and> min_estimate r = max 0 (mean_minutes r - std_dev r)
        \<and> max_estimate r = mean_minutes r + std_dev r
        \<and> confidence_range r = (10, 30))
   \<and> (\<exists>r. generate_collaboration_adjusted_estimate ''new endpoint'' ''technical''
              [''alice''] [''API''] api_history = Inr (Some r)
        \<and> min_estimate r = max 0 (mean_minutes r - std_dev r)
        \<and> max_estimate r = mean_minutes r + std_dev r
        \<and> confidence_range r = (10, 30))
   \<and> (\<exists>r b f. generate_experience_adjusted_estimate ''new endpoint'' ''technical''
              [''API''] api_history = Some r
        \<and> generate_estimate ''new endpoint'' ''technical'' [''API''] api_history = Some b
        \<and> 0 < f
        \<and> min_estimate r = max 0 (mean_minutes b - std_dev b) * f
        \<and> max_estimate r = (mean_minutes b + std_dev b) * f
        \<and> confidence_range r = (12, 36))
   \<and> (\<exists>r b f. generate_estimate_with_distraction_overhead ''third'' ''technical'' []
              distraction_scenario = Some r
        \<and> generate_estimate ''third'' ''technical'' [] distraction_scenario = Some b
        \<and> durations_nonneg distraction_scenario
        \<and> 0 \<le> f \<and> 0 \<le> min_estimate r
        \<and> min_estimate r = max 0 (mean_minutes b - std_dev b) * f
        \<and> max_estimate r = (mean_minutes b + std_dev b) * f
        \<and> confidence_range r = (60, 90))"
proof -
  note api = estimate_ranges [where d = "''new endpoint''" and wt = "''technical''"
      and k = "[''API'']" and data = api_history and p = "[''alice'']"]
  note dis = estimate_ranges [where d = "''third''" and wt = "''technical''"
      and k = "[]" and data = distraction_scenario and p = "[]"]
  have 1: "\<exists>r. generate_estimate ''new endpoint'' ''technical'' [''API''] api_history = Some r
        \<and> min_estimate r = max 0 (mean_minutes r - std_dev r)
        \<and> max_estimate r = mean_minutes r + std_dev r
        \<and> confidence_range r = (10, 30)"
    using api api_history_estimate by simp
  have 2: "\<exists>r. generate_collaboration_adjusted_estimate ''new endpoint'' ''technical''
              [''alice''] [''API''] api_history = Inr (Some r)
        \<and> min_estimate r = max 0 (mean_minutes r - std_dev r)
        \<and> max_estimate r = mean_minutes r + std_dev r
        \<and> confidence_range r = (10, 30)"
    using api api_history_collaboration_estimate by simp
  from api api_history_experience_estimate
  obtain b f where "generate_estimate ''new endpoint'' ''technical'' [''API''] api_history
        = Some b"
    and "0 < (f :: real)"
    and "(12 :: real) = max 0 (mean_minutes b - std_dev b) * f"
    and "(36 :: real) = (mean_minutes b + std_dev b) * f"
    by auto
  then have 3: "\<exists>r b f. generate_experience_adjusted_estimate ''new endpoint'' ''technical''
              [''API''] api_history = Some r
        \<and> generate_estimate ''new endpoint'' ''technical'' [''API''] api_history = Some b
        \<and> 0 < f
        \<and> min_estimate r = max 0 (mean_minutes b - std_dev b) * f
        \<and> max_estimate r = (mean_minutes b + std_dev b) * f
        \<and> confidence_range r = (12, 36)"
    using api_history_experience_estimate by auto
  from dis distraction_scenario_overhead_estimate distraction_scenario_nonneg
  obtain b f where "generate_estimate ''third'' ''technical'' [] distraction_scenario
        = Some b"
    and "0 \<le> (f :: real)"
    and "(60 :: real) = max 0 (mean_minutes b - std_dev b) * f"
    and "(90 :: real) = (mean_minutes b + std_dev b) * f"
    by auto
  then have 4: "\<exists>r b f. generate_estimate_with_distraction_overhead ''third'' ''technical'' []
              distraction_scenario = Some r
        \<and> generate_estimate ''third'' ''technical'' [] distraction_scenario = Some b
        \<and> durations_nonneg distraction_scenario
        \<and> 0 \<le> f \<and> 0 \<le> min_estimate r
        \<and> min_estimate r = max 0 (mean_minutes b - std_dev b) * f
        \<and> max_estimate r = (mean_minutes b + std_dev b) * f
        \<and> confidence_range r = (60, 90)"
    using distraction_scenario_overhead_estimate distraction_scenario_nonneg by auto
  from 1 2 3 4 show ?thesis by (intro conjI)
qed

subsection \<open>C6: experience tiers\<close>

lemma experience_adjustment_antimono:
  "a \<le> b \<Longrightarrow> snd (experience_adjustment b) \<le> snd (experience_adjustment a)"
  by (simp add: experience_adjustment_def)

lemma experience_adjustment_tiers:
  "(experience_adjustment t = (''novice'', 12 / 10)) = (t < 120)"
  "(experience_adjustment t = (''intermediate'', 1)) = (120 \<le> t \<and> t < 480)"
  "(experience_adjustment t = (''experienced'', 85 / 100)) = (480 \<le> t \<and> t < 1200)"
  "(experience_adjustment t = (''expert'', 7 / 10)) = (1200 \<le> t)"
  by (auto simp: experience_adjustment_def)

lemma experience_estimate_applied:
  assumes "generate_estimate d wt k data = Some b" and "k \<noteq> []"
  shows "generate_experience_adjusted_estimate d wt k data =
     Some \<lparr>mean_minutes =
              mean_minutes b * snd (experience_adjustment (total_experience k data)),
            variance = variance b, std_dev = std_dev b,
            min_estimate =
              min_estimate b * snd (experience_adjustment (total_experience k data)),
            max_estimate =
              max_estimate b * snd (experience_adjustment (total_experience k data)),
            confidence_range =
              (min_estimate b * snd (experience_adjustment (total_experience k data)),
               max_estimate b * snd (experience_adjustment (total_experience k data))),
            similar_work_count = similar_work_count b,
            similar_work_ids = similar_work_ids b\<rparr>"
  using assms
  by (simp add: generate_experience_adjusted_estimate_def Let_def split: prod.splits)

text \<open>
  C6: the tier chain of \<^verbatim>\<open>generate_experience_adjusted_estimate\<close> gives, for the totals
  0, 119, 120, 479, 480, 1199, 1200 and 5000, the factors 1.2, 1.2, 1.0, 1.0, 0.85, 0.85,
  0.7 and 0.7 with the tiers novice, intermediate, experienced and expert; every total
  falls in exactly one tier, with the boundaries 120, 480 and 1200; the factor never
  grows with the total; and when the base estimate exists and knowledge references are
  given, the mean, minimum and maximum of the result are the base values times the factor
  of the total experience.
\<close>

theorem experience_tiers:
  "map experience_adjustment [0, 119, 120, 479, 480, 1199, 1200, 5000] =
     [(''novice'', 12 / 10), (''novice'', 12 / 10), (''intermediate'', 1),
      (''intermediate'', 1), (''experienced'', 85 / 100), (''experienced'', 85 / 100),
      (''expert'', 7 / 10), (''expert'', 7 / 10)]
   \<and> (\<forall>t. (experience_adjustment t = (''novice'', 12 / 10)) = (t < 120)
          \<and> (experience_adjustment t = (''intermediate'', 1)) = (120 \<le> t \<and> t < 480)
          \<and> (experience_adjustment t = (''experienced'', 85 / 100))
              = (480 \<le> t \<and> t < 1200)
          \<and> (experience_adjustment t = (''expert'', 7 / 10)) = (1200 \<le> t))
   \<and> (\<forall>a b. a \<le> b \<longrightarrow> snd (experience_adjustment b) \<le> snd (experience_adjustment a))
   \<and> (\<forall>b. generate_estimate d wt k data = Some b \<and> k \<noteq> [] \<longrightarrow>
        generate_experience_adjusted_estimate d wt k data =
          Some \<lparr>mean_minutes =
                   mean_minutes b * snd (experience_adjustment (total_experience k data)),
                 variance = variance b, std_dev = std_dev b,
                 min_estimate =
                   min_estimate b * snd (experience_adjustment (total_experience k data)),
                 max_estimate =
                   max_estimate b * snd (experience_adjustment (total_experience k data)),
                 confidence_range =
                   (min_estimate b * snd (experience_adjustment (total_experience k data)),
                    max_estimate b * snd (experience_adjustment (total_experience k data))),
                 similar_work_count = similar_work_count b,
                 similar_work_ids = similar_work_ids b\<rparr>)"
proof (intro conjI allI impI)
  show "map experience_adjustment [0, 119, 120, 479, 480, 1199, 1200, 5000] =
     [(''novice'', 12 / 10), (''novice'', 12 / 10), (''intermediate'', 1),
      (''intermediate'', 1), (''experienced'', 85 / 100), (''experienced'', 85 / 100),
      (''expert'', 7 / 10), (''expert'', 7 / 10)]"
    by (simp add: experience_adjustment_def)
next
  fix t
  show "(experience_adjustment t = (''novice'', 12 / 10)) = (t < 120)"
    and "(experience_adjustment t = (''intermediate'', 1)) = (120 \<le> t \<and> t < 480)"
    and "(experience_adjustment t = (''experienced'', 85 / 100)) = (480 \<le> t \<and> t < 1200)"
    and "(experience_adjustment t = (''expert'', 7 / 10)) = (1200 \<le> t)"
    by (rule experience_adjustment_tiers)+
next
  fix a b :: int
  assume "a \<le> b"
  then show "snd (experience_adjustment b) \<le> snd (experience_adjustment a)"
    by (rule experience_adjustment_antimono)
next
  fix b
  assume "generate_estimate d wt k data = Some b \<and> k \<noteq> []"
  then show "generate_experience_adjusted_estimate d wt k data =
          Some \<lparr>mean_minutes =
                   mean_minutes b * snd (experience_adjustment (total_experience k data)),
                 variance = variance b, std_dev = std_dev b,
                 min_estimate =
                   min_estimate b * snd (experience_adjustment (total_experience k data)),
                 max_estimate =
                   max_estimate b * snd (experience_adjustment (total_experience k data)),
                 confidence_range =
                   (min_estimate b * snd (experience_adjustment (total_experience k data)),
                    max_estimate b * snd (experience_adjustment (total_experience k data))),
                 similar_work_count = similar_work_count b,
                 similar_work_ids = similar_work_ids b\<rparr>"
    using experience_estimate_applied by simp
qed

theorem experience_tiers_witness:
  "total_experience [''API''] api_history = 40
   \<and> experience_adjustment 40 = (''novice'', 12 / 10)
   \<and> snd (experience_adjustment 480) \<le> snd (experience_adjustment 479)
   \<and> generate_experience_adjusted_estimate ''new endpoint'' ''technical'' [''API'']
        api_history =
       Some \<lparr>mean_minutes = 24, variance = 100, std_dev = 10, min_estimate = 12,
              max_estimate = 36, confidence_range = (12, 36), similar_work_count = 2,
              similar_work_ids = [''a'', ''b'']\<rparr>"
proof -
  note t = experience_tiers [where d = "''new endpoint''" and wt = "''technical''"
      and k = "[''API'']" and data = api_history]
  from t have tier: "(experience_adjustment 40 = (''novice'', 12 / 10)) = ((40 :: int) < 120)"
    by blast
  from t have mono: "(479 :: int) \<le> 480
      \<longrightarrow> snd (experience_adjustment 480) \<le> snd (experience_adjustment 479)"
    by blast
  from tier have novice: "experience_adjustment 40 = (''novice'', 12 / 10)" by simp
  from t api_history_estimate api_history_experience novice
  have "generate_experience_adjusted_estimate ''new endpoint'' ''technical'' [''API'']
        api_history =
       Some \<lparr>mean_minutes = 24, variance = 100, std_dev = 10, min_estimate = 12,
              max_estimate = 36, confidence_range = (12, 36), similar_work_count = 2,
              similar_work_ids = [''a'', ''b'']\<rparr>"
    by simp
  with api_history_experience novice mono show ?thesis by simp
qed


subsection \<open>C8: the impact of distractions\<close>





subsection \<open>C3: operations that raise\<close>

lemma zero_duration_scenario_durations:
  "map (\<lambda>e. (work_type (core e), duration_minutes (core e), meta e))
     (entries zero_duration_scenario)
     = [(''technical'', Some 10, None), (''technical'', Some 0, None)]"
  by (simp add: zero_duration_scenario_def end_work_def start_work_def empty_data_def
      py_int_def total_seconds_def Let_def)

lemma str_nat_digits: "str_nat 0 = ''0''" "str_nat 1 = ''1''" "str_nat 2 = ''2''"
  "str_nat 3 = ''3''"
  by code_simp+

lemma str_nat_Suc: "str_nat (Suc 0) = ''1''" "str_nat (Suc (Suc 0)) = ''2''"
  "str_nat (Suc (Suc (Suc 0))) = ''3''"
  by (metis One_nat_def str_nat_digits(2), metis numeral_2_eq_2 str_nat_digits(3),
      metis numeral_3_eq_3 str_nat_digits(4))

lemma empty_data_fields: "entries empty_data = []" "breakdowns empty_data = None"
  by (simp_all add: empty_data_def)

lemma writing_chunks_all_and_then:
  "generate_chunks_by_type ''all and then'' ''writing'' [] cx empty_data =
     [\<lparr>chunk_id = ''chunk_1'',
       chunk_description = ''Research and outline: all and then'',
       estimated_minutes = 45, chunk_work_type = ''writing'',
       chunk_knowledge_refs = [], dependencies = []\<rparr>,
      \<lparr>chunk_id = ''chunk_2'',
       chunk_description = ''Write first draft: all and then'',
       estimated_minutes = 90, chunk_work_type = ''writing'',
       chunk_knowledge_refs = [], dependencies = [''chunk_1'']\<rparr>,
      \<lparr>chunk_id = ''chunk_3'',
       chunk_description = ''Review and edit: all and then'',
       estimated_minutes = 30, chunk_work_type = ''writing'',
       chunk_knowledge_refs = [], dependencies = [''chunk_2'']\<rparr>]"
proof -
  have up: "[0 ..< 3] = [0, 1, 2]" by (simp add: upt_rec)
  have est: "estimate_chunk c ''writing'' [] empty_data
      = (case map_of heuristics c of Some m \<Rightarrow> m | None \<Rightarrow> 60)" for c
    by (simp add: estimate_chunk_def find_similar_work_def empty_data_fields Let_def)
  show ?thesis
    by (simp add: generate_chunks_by_type_def writing_chunks_def est heuristics_def)
qed

lemma planned_scenario_entries:
  "map (\<lambda>e. (entry_id (core e), start_time (core e), duration_minutes (core e),
             map_option m_chunk_id (meta e)))
     (entries planned_scenario)
     = [(''plan_0'', None, None, Some ''chunk_1''),
        (''plan_1'', None, None, Some ''chunk_2''),
        (''plan_2'', None, None, Some ''chunk_3'')]"
proof -
  have up: "[0 ..< 3] = [0, 1, 2]" by (simp add: upt_rec)
  have b: "suggest_breakdown 0 ''breakdown_1'' ''all and then'' ''writing'' [] empty_data
      = Some \<lparr>original_work = ''all and then'', estimated_total = 165,
          chunks = generate_chunks_by_type ''all and then'' ''writing'' []
                     (analyze_complexity ''all and then'') empty_data,
          breakdown_id = ''breakdown_1'', created_at = 0, completed_chunks = []\<rparr>"
    unfolding suggest_breakdown_def Let_def
    using all_and_then_medium by (simp add: writing_chunks_all_and_then)
  show ?thesis
    unfolding planned_scenario_def b option.case accept_breakdown_def Let_def
    by (simp add: writing_chunks_all_and_then up str_nat_digits str_nat_Suc empty_data_fields)
qed

text \<open>
  C3: no public operation raises. The code does not keep this. After ten minutes of
  technical work and a second piece of technical work ended at the instant it started,
  \<^verbatim>\<open>analyze_estimation_accuracy\<close> divides by the actual duration 0 and raises
  \<^verbatim>\<open>ZeroDivisionError\<close>; the guard \<^verbatim>\<open>if mean == 0: continue\<close> covers the estimate, not
  the divisor. And \<^verbatim>\<open>end_work\<close> on an entry planned by \<^verbatim>\<open>accept_breakdown\<close> passes the
  absent start time to \<^verbatim>\<open>datetime.fromisoformat\<close> and raises \<^verbatim>\<open>TypeError\<close>, leaving the
  document as it was.
\<close>

theorem operations_raise:
  "analyze_estimation_accuracy 20 zero_duration_scenario = Inl ZeroDivisionError
   \<and> end_work 60000000 ''plan_0'' [] None planned_scenario
       = (Inl TypeError, planned_scenario)"
proof
  have es: "map core (filter (\<lambda>e. duration_minutes (core e) \<noteq> None)
              (entries zero_duration_scenario))
            = map core (entries zero_duration_scenario)"
    and ms: "\<not> list_ex (\<lambda>e. meta e \<noteq> None)
              (filter (\<lambda>e. duration_minutes (core e) \<noteq> None)
                 (entries zero_duration_scenario))"
    and ln: "length (filter (\<lambda>e. duration_minutes (core e) \<noteq> None)
              (entries zero_duration_scenario)) = 2"
    by (simp_all add: zero_duration_scenario_def end_work_def start_work_def empty_data_def
      py_int_def total_seconds_def Let_def)
  have loop: "accuracy_loop 20 [] (map core (entries zero_duration_scenario))
                \<lparr>st_total = 0, st_accurate = 0, st_over = 0, st_under = 0,
                 st_errors = [], st_patterns = []\<rparr> = Inl ZeroDivisionError"
    by (simp add: zero_duration_scenario_def end_work_def start_work_def empty_data_def
      py_int_def total_seconds_def Let_def calculate_statistics_def List.map_filter_def)
  show "analyze_estimation_accuracy 20 zero_duration_scenario = Inl ZeroDivisionError"
    unfolding analyze_estimation_accuracy_def Let_def es
    using ms ln loop by simp
next
  obtain e0 e1 e2 where es: "entries planned_scenario = [e0, e1, e2]"
    and e0: "entry_id (core e0) = ''plan_0''" "start_time (core e0) = None"
    using planned_scenario_entries by (auto simp: map_eq_Cons_conv)
  then show "end_work 60000000 ''plan_0'' [] None planned_scenario
       = (Inl TypeError, planned_scenario)"
    by (simp add: end_work_def)
qed


subsection \<open>C9: trend classification\<close>















subsection \<open>C10: linking an entry to knowledge documents\<close>

lemma find_entry_None_iff:
  "find_entry w es = None \<longleftrightarrow> w \<notin> set (map (\<lambda>e. entry_id (core e)) es)"
  by (induction es) auto

lemma link_time_to_knowledge_found:
  assumes found: "find_entry w (entries data) = Some i"
  shows "link_time_to_knowledge w refs data =
           (True, data\<lparr>entries := (entries data)
              [i := (entries data ! i)\<lparr>core := (core (entries data ! i))
                 \<lparr>knowledge_refs :=
                    remdups (knowledge_refs (core (entries data ! i)) @ refs)\<rparr>\<rparr>]\<rparr>)"
  using found by (simp add: link_time_to_knowledge_def Let_def)

text \<open>
  C10: for the id of a stored entry, \<^verbatim>\<open>link_time_to_knowledge\<close> returns true; the first
  entry with that id gets as \<^verbatim>\<open>knowledge_refs\<close> the union of its previous references
  and the given ones, and keeps every other field; every other entry and the stored
  breakdowns are unchanged. A second call with the same references returns true again
  and leaves every entry's set of references, and everything else, as the first call left
  it. For an unknown id the call returns false and the document is unchanged.
\<close>

theorem link_time_to_knowledge_union:
  "(w \<in> set (map (\<lambda>e. entry_id (core e)) (entries data)) \<longrightarrow>
      (\<exists>i < length (entries data).
         find_entry w (entries data) = Some i
         \<and> (let once = link_time_to_knowledge w refs data;
                 twice = link_time_to_knowledge w refs (snd once);
                 old = entries data ! i;
                 new = entries (snd once) ! i
             in fst once
                \<and> length (entries (snd once)) = length (entries data)
                \<and> set (knowledge_refs (core new)) = set (knowledge_refs (core old)) \<union> set refs
                \<and> new = old\<lparr>core := (core old)\<lparr>knowledge_refs := knowledge_refs (core new)\<rparr>\<rparr>
                \<and> (\<forall>j < length (entries data). j \<noteq> i
                      \<longrightarrow> entries (snd once) ! j = entries data ! j)
                \<and> breakdowns (snd once) = breakdowns data
                \<and> fst twice
                \<and> map (\<lambda>e. set (knowledge_refs (core e))) (entries (snd twice))
                    = map (\<lambda>e. set (knowledge_refs (core e))) (entries (snd once))
                \<and> map (\<lambda>e. e\<lparr>core := (core e)\<lparr>knowledge_refs := []\<rparr>\<rparr>) (entries (snd twice))
                    = map (\<lambda>e. e\<lparr>core := (core e)\<lparr>knowledge_refs := []\<rparr>\<rparr>)
                        (entries (snd once))
                \<and> breakdowns (snd twice) = breakdowns (snd once))))
   \<and> (w \<notin> set (map (\<lambda>e. entry_id (core e)) (entries data)) \<longrightarrow>
        link_time_to_knowledge w refs data = (False, data))"
proof (intro conjI impI)
  assume "w \<notin> set (map (\<lambda>e. entry_id (core e)) (entries data))"
  then have "find_entry w (entries data) = None" by (simp add: find_entry_None_iff)
  then show "link_time_to_knowledge w refs data = (False, data)"
    by (simp add: link_time_to_knowledge_def)
next
  assume "w \<in> set (map (\<lambda>e. entry_id (core e)) (entries data))"
  then have "find_entry w (entries data) \<noteq> None" by (simp add: find_entry_None_iff)
  then obtain i where found: "find_entry w (entries data) = Some i" by auto
  then have i: "i < length (entries data)"
    and idw: "entry_id (core (entries data ! i)) = w"
    using find_entry_Some by blast+
  define old where "old = entries data ! i"
  define new where "new = old\<lparr>core := (core old)
      \<lparr>knowledge_refs := remdups (knowledge_refs (core old) @ refs)\<rparr>\<rparr>"
  define d1 where "d1 = data\<lparr>entries := (entries data)[i := new]\<rparr>"
  have once: "link_time_to_knowledge w refs data = (True, d1)"
    unfolding d1_def new_def old_def by (rule link_time_to_knowledge_found [OF found])
  have e1: "entries d1 = (entries data)[i := new]" by (simp add: d1_def)
  have new_i: "entries d1 ! i = new" using i by (simp add: e1)
  have id_new: "entry_id (core new) = entry_id (core (entries data ! i))"
    by (simp add: new_def old_def)
  have found1: "find_entry w (entries d1) = Some i"
    unfolding e1 using find_entry_update_fields [OF id_new i] found by simp
  define new2 where "new2 = new\<lparr>core := (core new)
      \<lparr>knowledge_refs := remdups (knowledge_refs (core new) @ refs)\<rparr>\<rparr>"
  define d2 where "d2 = d1\<lparr>entries := (entries d1)[i := new2]\<rparr>"
  have twice: "link_time_to_knowledge w refs d1 = (True, d2)"
    unfolding d2_def new2_def using link_time_to_knowledge_found [OF found1, of refs] new_i
    by simp
  have e2: "entries d2 = (entries d1)[i := new2]" by (simp add: d2_def)
  have sets: "set (knowledge_refs (core new2)) = set (knowledge_refs (core new))"
    by (auto simp: new2_def new_def)
  have rest: "new2\<lparr>core := (core new2)\<lparr>knowledge_refs := []\<rparr>\<rparr>
      = new\<lparr>core := (core new)\<lparr>knowledge_refs := []\<rparr>\<rparr>"
    by (simp add: new2_def)
  have i1: "i < length (entries d1)" using i by (simp add: e1)
  have m1: "map (\<lambda>e. set (knowledge_refs (core e))) (entries d2)
      = map (\<lambda>e. set (knowledge_refs (core e))) (entries d1)"
    unfolding e2 using i1 new_i sets
    by (simp add: map_update list_update_same_conv)
  have m2: "map (\<lambda>e. e\<lparr>core := (core e)\<lparr>knowledge_refs := []\<rparr>\<rparr>) (entries d2)
      = map (\<lambda>e. e\<lparr>core := (core e)\<lparr>knowledge_refs := []\<rparr>\<rparr>) (entries d1)"
    unfolding e2 using i1 new_i rest
    by (simp add: map_update list_update_same_conv)
  have body: "(let once = link_time_to_knowledge w refs data;
                 twice = link_time_to_knowledge w refs (snd once);
                 old = entries data ! i;
                 new = entries (snd once) ! i
             in fst once
                \<and> length (entries (snd once)) = length (entries data)
                \<and> set (knowledge_refs (core new)) = set (knowledge_refs (core old)) \<union> set refs
                \<and> new = old\<lparr>core := (core old)\<lparr>knowledge_refs := knowledge_refs (core new)\<rparr>\<rparr>
                \<and> (\<forall>j < length (entries data). j \<noteq> i
                      \<longrightarrow> entries (snd once) ! j = entries data ! j)
                \<and> breakdowns (snd once) = breakdowns data
                \<and> fst twice
                \<and> map (\<lambda>e. set (knowledge_refs (core e))) (entries (snd twice))
                    = map (\<lambda>e. set (knowledge_refs (core e))) (entries (snd once))
                \<and> map (\<lambda>e. e\<lparr>core := (core e)\<lparr>knowledge_refs := []\<rparr>\<rparr>) (entries (snd twice))
                    = map (\<lambda>e. e\<lparr>core := (core e)\<lparr>knowledge_refs := []\<rparr>\<rparr>)
                        (entries (snd once))
                \<and> breakdowns (snd twice) = breakdowns (snd once))"
    unfolding Let_def once twice fst_conv snd_conv new_i
    using m1 m2 i
    by (simp add: e1 old_def [symmetric]) (simp add: new_def d1_def d2_def)
  from i found body
  show "\<exists>i < length (entries data).
         find_entry w (entries data) = Some i
         \<and> (let once = link_time_to_knowledge w refs data;
                 twice = link_time_to_knowledge w refs (snd once);
                 old = entries data ! i;
                 new = entries (snd once) ! i
             in fst once
                \<and> length (entries (snd once)) = length (entries data)
                \<and> set (knowledge_refs (core new)) = set (knowledge_refs (core old)) \<union> set refs
                \<and> new = old\<lparr>core := (core old)\<lparr>knowledge_refs := knowledge_refs (core new)\<rparr>\<rparr>
                \<and> (\<forall>j < length (entries data). j \<noteq> i
                      \<longrightarrow> entries (snd once) ! j = entries data ! j)
                \<and> breakdowns (snd once) = breakdowns data
                \<and> fst twice
                \<and> map (\<lambda>e. set (knowledge_refs (core e))) (entries (snd twice))
                    = map (\<lambda>e. set (knowledge_refs (core e))) (entries (snd once))
                \<and> map (\<lambda>e. e\<lparr>core := (core e)\<lparr>knowledge_refs := []\<rparr>\<rparr>) (entries (snd twice))
                    = map (\<lambda>e. e\<lparr>core := (core e)\<lparr>knowledge_refs := []\<rparr>\<rparr>)
                        (entries (snd once))
                \<and> breakdowns (snd twice) = breakdowns (snd once))"
    by blast
qed


theorem link_time_to_knowledge_union_witness:
  "fst (link_time_to_knowledge ''a'' [''DB'', ''API''] api_history)
   \<and> set (knowledge_refs (core (entries
            (snd (link_time_to_knowledge ''a'' [''DB'', ''API''] api_history)) ! 0)))
       = {''API'', ''DB''}
   \<and> entries (snd (link_time_to_knowledge ''a'' [''DB'', ''API''] api_history)) ! 1
       = entries api_history ! 1
   \<and> link_time_to_knowledge ''z'' [''DB''] api_history = (False, api_history)"
proof -
  have ids: "map (\<lambda>e. entry_id (core e)) (entries api_history) = [''a'', ''b'']"
    by (simp add: api_history_entries)
  have first: "find_entry ''a'' (entries api_history) = Some 0"
    by (simp add: api_history_entries)
  have old: "knowledge_refs (core (entries api_history ! 0)) = [''API'']"
    by (simp add: api_history_entries)
  have len: "length (entries api_history) = 2"
    by (simp add: api_history_entries)
  from link_time_to_knowledge_union [of "''a''" api_history "[''DB'', ''API'']"] ids
  obtain i where "find_entry ''a'' (entries api_history) = Some i"
    and body: "(let once = link_time_to_knowledge ''a'' [''DB'', ''API''] api_history;
                 twice = link_time_to_knowledge ''a'' [''DB'', ''API''] (snd once);
                 old = entries api_history ! i;
                 new = entries (snd once) ! i
             in fst once
                \<and> length (entries (snd once)) = length (entries api_history)
                \<and> set (knowledge_refs (core new))
                    = set (knowledge_refs (core old)) \<union> set [''DB'', ''API'']
                \<and> new = old\<lparr>core := (core old)\<lparr>knowledge_refs := knowledge_refs (core new)\<rparr>\<rparr>
                \<and> (\<forall>j < length (entries api_history). j \<noteq> i
                      \<longrightarrow> entries (snd once) ! j = entries api_history ! j)
                \<and> breakdowns (snd once) = breakdowns api_history
                \<and> fst twice
                \<and> map (\<lambda>e. set (knowledge_refs (core e))) (entries (snd twice))
                    = map (\<lambda>e. set (knowledge_refs (core e))) (entries (snd once))
                \<and> map (\<lambda>e. e\<lparr>core := (core e)\<lparr>knowledge_refs := []\<rparr>\<rparr>) (entries (snd twice))
                    = map (\<lambda>e. e\<lparr>core := (core e)\<lparr>knowledge_refs := []\<rparr>\<rparr>)
                        (entries (snd once))
                \<and> breakdowns (snd twice) = breakdowns (snd once))"
    by auto
  with first have i0: "i = 0" by simp
  let ?once = "link_time_to_knowledge ''a'' [''DB'', ''API''] api_history"
  from body i0 have ok: "fst ?once"
    and refs: "set (knowledge_refs (core (entries (snd ?once) ! 0)))
        = set (knowledge_refs (core (entries api_history ! 0))) \<union> set [''DB'', ''API'']"
    and others: "\<forall>j < length (entries api_history). j \<noteq> 0
        \<longrightarrow> entries (snd ?once) ! j = entries api_history ! j"
    unfolding Let_def by blast+
  from refs old have r: "set (knowledge_refs (core (entries (snd ?once) ! 0)))
        = {''API'', ''DB''}"
    by auto
  from others len have o: "entries (snd ?once) ! 1 = entries api_history ! 1"
    by simp
  from link_time_to_knowledge_union [of "''z''" api_history "[''DB'']"] ids
  have unknown: "link_time_to_knowledge ''z'' [''DB''] api_history = (False, api_history)"
    by simp
  from ok r o unknown show ?thesis by (intro conjI)
qed

end
